theory Spec2Isabelle
  imports Complex_Main
begin

section \<open>Values, operators and DAGs\<close>

text \<open>
  The repository declares Airflow DAGs: it instantiates operator classes of the
  orchestration framework with keyword arguments and links the instances with
  \<open>set_upstream\<close>. The model keeps, for every operator instance, the keyword arguments
  the source passes (a keyword the source leaves out is \<open>None\<close>), and for every DAG the
  registered operators in declaration order and the upstream links in the order the
  source sets them. The Markdown documentation attached to each task (\<open>doc_md\<close>) has
  no behaviour and is left out; the start date of \<open>default_args\<close> is the wall clock
  (\<open>datetime.now()\<close>) and is left out as well.
\<close>

datatype pyval =
    PyNone
  | PyStr string
  | PyInt int
  | PyFloat real
  | PyBool bool
  | PyObj string  \<comment> \<open>an opaque object (module, class, function, operator) by its name\<close>

text \<open>
  What lies outside the repository and is called by it: the method \<open>str.lower\<close> of the
  language, \<open>os.path.abspath\<close>, and the function \<open>dicom_import.visit_info\<close>, which
  returns a pair (participant id, scan date). They are parameters of the model.
\<close>

record world =
  str_lower :: "string \<Rightarrow> string"
  abspath :: "string \<Rightarrow> string"
  visit_info :: "string \<Rightarrow> pyval \<times> pyval"

text \<open>A \<open>timedelta\<close>, in seconds.\<close>

type_synonym timedelta = nat

definition seconds :: "nat \<Rightarrow> timedelta" where
  "seconds n = n"

definition minutes :: "nat \<Rightarrow> timedelta" where
  "minutes n = n * 60"

definition hours :: "nat \<Rightarrow> timedelta" where
  "hours n = n * 3600"

datatype operator_class =
    FreeSpaceSensor
  | BashOperator
  | BashPipelineOperator
  | PreparePipelineOperator
  | PythonPipelineOperator
  | SpmPipelineOperator
  | TriggerDagRunOperator

text \<open>The functions of the repository that are handed to operators as callables.\<close>

datatype callable =
    extract_dicom_info_fn_ref
  | extract_nifti_info_fn_ref
  | dicom_organizer_arguments_fn_ref
  | dicom_to_nifti_arguments_fn_ref
  | mpm_maps_arguments_fn_ref
  | neuro_morphometric_atlas_arguments_fn_ref
  | pipeline_trigger string  \<comment> \<open>\<open>pipeline_trigger(parent_task)\<close> of the framework\<close>

text \<open>
  The shell scripts handed to the bash operators, by the name of the variable that holds
  them. Their text is data for the external shell and is not interpreted here. The two
  DAG modules hold scripts of the same names that run the same commands; the text of the
  hard-coded module is indented where the other is dedented, so the two are kept apart.
\<close>

datatype bash_script =
    copy_dicom_to_local_cmd
  | cleanup_local_dicom_cmd
  | hc_copy_dicom_to_local_cmd
  | hc_cleanup_local_dicom_cmd
  | copy_to_local_cmd

text \<open>
  An operator instance. \<open>output_folder_base\<close> is the folder captured by the lambda
  \<open>lambda session_id, **kwargs: folder + '/' + session_id\<close> passed as
  \<open>output_folder_callable\<close>; every such lambda of the repository has this shape.
\<close>

record operator =
  task_id :: string
  operator_class :: operator_class
  pool :: "string option"
  priority_weight :: "int option"
  execution_timeout :: "timedelta option"
  retry_delay :: "timedelta option"
  retries :: "nat option"
  parent_task :: "string option"
  on_skip_trigger_dag_id :: "string option"
  on_failure_trigger_dag_id :: "string option"
  trigger_dag_id :: "string option"
  path :: "string option"
  free_disk_threshold :: "real option"
  bash_command :: "bash_script option"
  params :: "(string \<times> pyval) list"
  initial_root_folder :: "string option"
  python_callable :: "callable option"
  spm_function :: "string option"
  spm_arguments_callable :: "callable option"
  matlab_paths :: "pyval list option"
  output_folder_base :: "pyval option"
  dataset_config :: "string list option"
  organised_folder :: "bool option"

text \<open>An operator of a class with a task id and no other keyword argument.\<close>

definition new_operator :: "operator_class \<Rightarrow> string \<Rightarrow> operator" where
  "new_operator c tid =
     \<lparr>task_id = tid, operator_class = c, pool = None, priority_weight = None,
      execution_timeout = None, retry_delay = None, retries = None, parent_task = None,
      on_skip_trigger_dag_id = None, on_failure_trigger_dag_id = None,
      trigger_dag_id = None, path = None, free_disk_threshold = None,
      bash_command = None, params = [], initial_root_folder = None,
      python_callable = None, spm_function = None, spm_arguments_callable = None,
      matlab_paths = None, output_folder_base = None, dataset_config = None,
      organised_folder = None\<rparr>"

record default_args =
  owner :: string
  depends_on_past :: bool
  default_retries :: nat
  default_retry_delay :: timedelta
  email :: string
  email_on_failure :: bool
  email_on_retry :: bool

record dag =
  dag_id :: string
  dag_default_args :: default_args
  dag_max_active_runs :: "int option"
  tasks :: "operator list"
  links :: "(string \<times> string) list"  \<comment> \<open>(upstream task id, downstream task id)\<close>

definition DAG :: "string \<Rightarrow> default_args \<Rightarrow> int option \<Rightarrow> dag" where
  "DAG name args runs =
     \<lparr>dag_id = name, dag_default_args = args, dag_max_active_runs = runs,
      tasks = [], links = []\<rparr>"

text \<open>Passing \<open>dag=dag\<close> to an operator registers it in the DAG.\<close>

definition add_task :: "operator \<Rightarrow> dag \<Rightarrow> dag" where
  "add_task t d = d\<lparr>tasks := tasks d @ [t]\<rparr>"

text \<open>\<open>t.set_upstream(u)\<close>: \<open>u\<close> must finish before \<open>t\<close> starts.\<close>

definition set_upstream :: "operator \<Rightarrow> operator \<Rightarrow> dag \<Rightarrow> dag" where
  "set_upstream t u d = d\<lparr>links := links d @ [(task_id u, task_id t)]\<rparr>"

definition find_task :: "string \<Rightarrow> dag \<Rightarrow> operator option" where
  "find_task tid d = find (\<lambda>t. task_id t = tid) (tasks d)"

definition task_ids :: "dag \<Rightarrow> string list" where
  "task_ids d = map task_id (tasks d)"

text \<open>\<open>u\<close> is a direct upstream task of \<open>t\<close>.\<close>

definition upstream_of :: "dag \<Rightarrow> string \<Rightarrow> string \<Rightarrow> bool" where
  "upstream_of d u t = ((u, t) \<in> set (links d))"

text \<open>\<open>u\<close> is upstream of \<open>t\<close> through one or more links: \<open>t\<close> cannot start before \<open>u\<close>.\<close>

definition before :: "dag \<Rightarrow> string \<Rightarrow> string \<Rightarrow> bool" where
  "before d u t = ((u, t) \<in> (set (links d))\<^sup>+)"

section \<open>The parameterised DAG: \<open>mri_pipelines/pre_process_dicom.py\<close>\<close>

text \<open>
  The arguments of \<open>pre_process_dicom_dag\<close>. The folder and path arguments that default
  to \<open>None\<close> are values; the four switches are booleans. The task declarations below
  carry the suffix \<open>_task\<close>, since the source reuses the name \<open>copy_dicom_to_local\<close>
  for a switch and for the task.
\<close>

record dag_args =
  dataset :: string
  email_errors_to :: string
  max_active_runs :: int
  misc_library_path :: string
  min_free_space_local_folder :: real
  dicom_local_folder :: string
  copy_dicom_to_local :: bool
  dicom_organizer :: bool
  dicom_organizer_spm_function :: string
  dicom_organizer_pipeline_path :: pyval
  dicom_organizer_local_folder :: pyval
  dicom_organizer_data_structure :: string
  dicom_to_nifti_spm_function :: string
  dicom_to_nifti_pipeline_path :: pyval
  dicom_to_nifti_local_folder :: pyval
  dicom_to_nifti_server_folder :: pyval
  mpm_maps :: bool
  mpm_maps_spm_function :: string
  mpm_maps_pipeline_path :: pyval
  mpm_maps_local_folder :: pyval
  mpm_maps_server_folder :: pyval
  neuro_morphometric_atlas :: bool
  neuro_morphometric_atlas_spm_function :: string
  neuro_morphometric_atlas_pipeline_path :: pyval
  neuro_morphometric_atlas_local_folder :: pyval
  neuro_morphometric_atlas_server_folder :: pyval

text \<open>
  A call that passes the six required arguments and leaves every optional argument at
  the default of the signature.
\<close>

definition default_call :: "string \<Rightarrow> string \<Rightarrow> int \<Rightarrow> string \<Rightarrow> real \<Rightarrow> string \<Rightarrow> dag_args" where
  "default_call ds mail runs misc min_free local =
     \<lparr>dataset = ds, email_errors_to = mail, max_active_runs = runs,
      misc_library_path = misc, min_free_space_local_folder = min_free,
      dicom_local_folder = local,
      copy_dicom_to_local = True,
      dicom_organizer = False, dicom_organizer_spm_function = ''dicomOrganizer'',
      dicom_organizer_pipeline_path = PyNone, dicom_organizer_local_folder = PyNone,
      dicom_organizer_data_structure = ''PatientID:StudyID:ProtocolName:SeriesNumber'',
      dicom_to_nifti_spm_function = ''DCM2NII_LREN'', dicom_to_nifti_pipeline_path = PyNone,
      dicom_to_nifti_local_folder = PyNone, dicom_to_nifti_server_folder = PyNone,
      mpm_maps = True, mpm_maps_spm_function = ''Preproc_mpm_maps'',
      mpm_maps_pipeline_path = PyNone, mpm_maps_local_folder = PyNone,
      mpm_maps_server_folder = PyNone,
      neuro_morphometric_atlas = True,
      neuro_morphometric_atlas_spm_function = ''NeuroMorphometric_pipeline'',
      neuro_morphometric_atlas_pipeline_path = PyNone,
      neuro_morphometric_atlas_local_folder = PyNone,
      neuro_morphometric_atlas_server_folder = PyNone\<rparr>"

text \<open>
  \<open>'%s_mri_pre_process_dicom' % dataset.lower().replace(" ", "_")\<close>: the name is
  lower-cased by the language, then every space becomes an underscore.
\<close>

definition DAG_NAME :: "world \<Rightarrow> string \<Rightarrow> string" where
  "DAG_NAME w ds =
     map (\<lambda>c. if c = CHR '' '' then CHR ''_'' else c) (str_lower w ds)
       @ ''_mri_pre_process_dicom''"

definition dag_default_args_of :: "string \<Rightarrow> default_args" where
  "dag_default_args_of mail =
     \<lparr>owner = ''airflow'', depends_on_past = False, default_retries = 1,
      default_retry_delay = seconds 120, email = mail,
      email_on_failure = True, email_on_retry = True\<rparr>"

definition check_free_space_task :: "dag_args \<Rightarrow> operator" where
  "check_free_space_task a =
     (new_operator FreeSpaceSensor ''check_free_space'')
       \<lparr>path := Some (dicom_local_folder a),
        free_disk_threshold := Some (min_free_space_local_folder a),
        retry_delay := Some (hours 1),
        retries := Some (24 * 7),
        pool := Some ''remote_file_copy''\<rparr>"

definition copy_dicom_to_local_task :: "dag_args \<Rightarrow> operator" where
  "copy_dicom_to_local_task a =
     (new_operator BashOperator ''copy_dicom_to_local'')
       \<lparr>bash_command := Some copy_dicom_to_local_cmd,
        params := [(''local_output_folder'', PyStr (dicom_local_folder a)),
                   (''min_free_space_local_folder'', PyFloat (min_free_space_local_folder a))],
        pool := Some ''remote_file_copy'',
        priority_weight := Some 10,
        execution_timeout := Some (hours 3)\<rparr>"

definition prepare_pipeline_task :: "dag_args \<Rightarrow> operator" where
  "prepare_pipeline_task a =
     (new_operator PreparePipelineOperator ''prepare_pipeline'')
       \<lparr>initial_root_folder := Some (dicom_local_folder a),
        priority_weight := Some 12,
        execution_timeout := Some (minutes 10)\<rparr>"

definition dicom_organizer_pipeline_task :: "dag_args \<Rightarrow> string \<Rightarrow> operator" where
  "dicom_organizer_pipeline_task a upstream_id =
     (new_operator SpmPipelineOperator ''dicom_organizer_pipeline'')
       \<lparr>spm_function := Some (dicom_organizer_spm_function a),
        spm_arguments_callable := Some dicom_organizer_arguments_fn_ref,
        matlab_paths := Some [PyStr (misc_library_path a), dicom_organizer_pipeline_path a],
        output_folder_base := Some (dicom_organizer_local_folder a),
        pool := Some ''io_intensive'',
        parent_task := Some upstream_id,
        priority_weight := Some 20,
        execution_timeout := Some (hours 24),
        on_skip_trigger_dag_id := Some ''mri_notify_skipped_processing'',
        on_failure_trigger_dag_id := Some ''mri_notify_failed_processing''\<rparr>"

definition extract_dicom_info_task :: "string \<Rightarrow> operator" where
  "extract_dicom_info_task upstream_id =
     (new_operator PythonPipelineOperator ''extract_dicom_info'')
       \<lparr>python_callable := Some extract_dicom_info_fn_ref,
        parent_task := Some upstream_id,
        pool := Some ''io_intensive'',
        priority_weight := Some 15,
        execution_timeout := Some (hours 6)\<rparr>"

definition dicom_to_nifti_pipeline_task :: "dag_args \<Rightarrow> string \<Rightarrow> operator" where
  "dicom_to_nifti_pipeline_task a upstream_id =
     (new_operator SpmPipelineOperator ''dicom_to_nifti_pipeline'')
       \<lparr>spm_function := Some (dicom_to_nifti_spm_function a),
        spm_arguments_callable := Some dicom_to_nifti_arguments_fn_ref,
        matlab_paths := Some [PyStr (misc_library_path a), dicom_to_nifti_pipeline_path a],
        output_folder_base := Some (dicom_to_nifti_local_folder a),
        pool := Some ''io_intensive'',
        parent_task := Some upstream_id,
        priority_weight := Some 20,
        execution_timeout := Some (hours 24),
        on_skip_trigger_dag_id := Some ''mri_notify_skipped_processing'',
        on_failure_trigger_dag_id := Some ''mri_notify_failed_processing''\<rparr>"

definition cleanup_local_dicom_task :: "dag_args \<Rightarrow> operator" where
  "cleanup_local_dicom_task a =
     (new_operator BashOperator ''cleanup_local_dicom'')
       \<lparr>bash_command := Some cleanup_local_dicom_cmd,
        params := [(''local_folder'', PyStr (dicom_local_folder a))],
        priority_weight := Some 25,
        execution_timeout := Some (hours 1)\<rparr>"

definition extract_nifti_info_task :: "string \<Rightarrow> operator" where
  "extract_nifti_info_task upstream_id =
     (new_operator PythonPipelineOperator ''extract_nifti_info'')
       \<lparr>python_callable := Some extract_nifti_info_fn_ref,
        parent_task := Some upstream_id,
        pool := Some ''io_intensive'',
        priority_weight := Some 21,
        execution_timeout := Some (hours 3)\<rparr>"

definition notify_success_task :: operator where
  "notify_success_task =
     (new_operator TriggerDagRunOperator ''notify_success'')
       \<lparr>trigger_dag_id := Some ''mri_notify_successful_processing'',
        python_callable := Some (pipeline_trigger ''extract_nifti_atlas_info''),
        priority_weight := Some 50\<rparr>"

definition mpm_maps_pipeline_task :: "dag_args \<Rightarrow> string \<Rightarrow> operator" where
  "mpm_maps_pipeline_task a upstream_id =
     (new_operator SpmPipelineOperator ''mpm_maps_pipeline'')
       \<lparr>spm_function := Some (mpm_maps_spm_function a),
        spm_arguments_callable := Some mpm_maps_arguments_fn_ref,
        matlab_paths := Some [PyStr (misc_library_path a), mpm_maps_pipeline_path a],
        output_folder_base := Some (mpm_maps_local_folder a),
        priority_weight := Some 30,
        execution_timeout := Some (hours 24),
        pool := Some ''image_preprocessing'',
        parent_task := Some upstream_id,
        on_skip_trigger_dag_id := Some ''mri_notify_skipped_processing'',
        on_failure_trigger_dag_id := Some ''mri_notify_failed_processing''\<rparr>"

definition extract_nifti_mpm_info_task :: "string \<Rightarrow> operator" where
  "extract_nifti_mpm_info_task upstream_id =
     (new_operator PythonPipelineOperator ''extract_nifti_mpm_info'')
       \<lparr>python_callable := Some extract_nifti_info_fn_ref,
        parent_task := Some upstream_id,
        pool := Some ''io_intensive'',
        priority_weight := Some 35,
        execution_timeout := Some (hours 3)\<rparr>"

definition neuro_morphometric_atlas_pipeline_task :: "dag_args \<Rightarrow> string \<Rightarrow> operator" where
  "neuro_morphometric_atlas_pipeline_task a upstream_id =
     (new_operator SpmPipelineOperator ''neuro_morphometric_atlas_pipeline'')
       \<lparr>spm_function := Some (neuro_morphometric_atlas_spm_function a),
        spm_arguments_callable := Some neuro_morphometric_atlas_arguments_fn_ref,
        matlab_paths := Some [PyStr (misc_library_path a),
                              neuro_morphometric_atlas_pipeline_path a],
        output_folder_base := Some (neuro_morphometric_atlas_local_folder a),
        pool := Some ''image_preprocessing'',
        parent_task := Some upstream_id,
        priority_weight := Some 40,
        execution_timeout := Some (hours 24),
        on_skip_trigger_dag_id := Some ''mri_notify_skipped_processing'',
        on_failure_trigger_dag_id := Some ''mri_notify_failed_processing''\<rparr>"

definition extract_nifti_atlas_info_task :: operator where
  "extract_nifti_atlas_info_task =
     (new_operator PythonPipelineOperator ''extract_nifti_atlas_info'')
       \<lparr>python_callable := Some extract_nifti_info_fn_ref,
        parent_task := Some ''neuro_morphometric_atlas_pipeline'',
        pool := Some ''io_intensive'',
        priority_weight := Some 45,
        execution_timeout := Some (hours 3)\<rparr>"

text \<open>
  The body of \<open>pre_process_dicom_dag\<close>, statement by statement. The variables
  \<open>upstream\<close> and \<open>upstream_id\<close> of the source are threaded through; each \<open>if\<close> of
  the source is an \<open>if\<close> here.
\<close>

definition pre_process_dicom_dag :: "world \<Rightarrow> dag_args \<Rightarrow> dag" where
  "pre_process_dicom_dag w a =
     (let dag0 = DAG (DAG_NAME w (dataset a)) (dag_default_args_of (email_errors_to a))
                   (Some (max_active_runs a));
          check_free_space = check_free_space_task a;
          dag1 = add_task check_free_space dag0;
          upstream = check_free_space;
          upstream_id = ''check_free_space'';
          (dag2, upstream, upstream_id) =
            (if copy_dicom_to_local a then
               (let copy = copy_dicom_to_local_task a;
                    d = set_upstream copy upstream (add_task copy dag1)
                in (d, copy, ''copy_dicom_to_local''))
             else (dag1, upstream, upstream_id));
          prepare_pipeline = prepare_pipeline_task a;
          dag3 = set_upstream prepare_pipeline upstream (add_task prepare_pipeline dag2);
          upstream = prepare_pipeline;
          upstream_id = ''prepare_pipeline'';
          (dag4, upstream, upstream_id) =
            (if dicom_organizer a then
               (let dicom_organizer_pipeline = dicom_organizer_pipeline_task a upstream_id;
                    d = set_upstream dicom_organizer_pipeline upstream
                          (add_task dicom_organizer_pipeline dag3)
                in (d, dicom_organizer_pipeline, ''dicom_organizer_pipeline''))
             else (dag3, upstream, upstream_id));
          extract_dicom_info = extract_dicom_info_task upstream_id;
          dag5 = set_upstream extract_dicom_info upstream (add_task extract_dicom_info dag4);
          upstream = extract_dicom_info;
          upstream_id = ''extract_dicom_info'';
          dicom_to_nifti_pipeline = dicom_to_nifti_pipeline_task a upstream_id;
          dag6 = set_upstream dicom_to_nifti_pipeline upstream
                   (add_task dicom_to_nifti_pipeline dag5);
          upstream = dicom_to_nifti_pipeline;
          upstream_id = ''dicom_to_nifti_pipeline'';
          cleanup_local_dicom = cleanup_local_dicom_task a;
          dag7 = set_upstream cleanup_local_dicom upstream (add_task cleanup_local_dicom dag6);
          extract_nifti_info = extract_nifti_info_task upstream_id;
          dag8 = set_upstream extract_nifti_info dicom_to_nifti_pipeline
                   (add_task extract_nifti_info dag7);
          notify_success = notify_success_task;
          dag9 = set_upstream notify_success extract_nifti_info (add_task notify_success dag8);
          (dag10, upstream, upstream_id) =
            (if mpm_maps a then
               (let mpm_maps_pipeline = mpm_maps_pipeline_task a upstream_id;
                    d = set_upstream mpm_maps_pipeline upstream (add_task mpm_maps_pipeline dag9);
                    upstream = mpm_maps_pipeline;
                    upstream_id = ''mpm_maps_pipeline'';
                    extract_nifti_mpm_info = extract_nifti_mpm_info_task upstream_id;
                    d = set_upstream extract_nifti_mpm_info upstream
                          (add_task extract_nifti_mpm_info d);
                    d = set_upstream notify_success extract_nifti_mpm_info d
                in (d, upstream, upstream_id))
             else (dag9, upstream, upstream_id))
      in (if neuro_morphometric_atlas a then
            (let neuro_morphometric_atlas_pipeline =
                   neuro_morphometric_atlas_pipeline_task a upstream_id;
                 d = set_upstream neuro_morphometric_atlas_pipeline upstream
                       (add_task neuro_morphometric_atlas_pipeline dag10);
                 extract_nifti_atlas_info = extract_nifti_atlas_info_task;
                 d = set_upstream extract_nifti_atlas_info neuro_morphometric_atlas_pipeline
                       (add_task extract_nifti_atlas_info d)
             in set_upstream notify_success extract_nifti_atlas_info d)
          else dag10))"

section \<open>The hard-coded DAG: \<open>mri_pre_process_dicom.py\<close>\<close>

text \<open>
  The module reads its constants from the section \<open>mri\<close> of the configuration store
  when it is imported. The values of the ten keys it reads are a parameter
  (\<open>MIN_FREE_SPACE_LOCAL_FOLDER\<close> already converted by \<open>float\<close>). The constants and
  tasks of this module carry the prefix \<open>hc_\<close>, since both modules use the same names.
\<close>

record mri_section =
  PIPELINES_PATH :: string
  PROTOCOLS_FILE :: string
  MIN_FREE_SPACE_LOCAL_FOLDER :: real
  DICOM_LOCAL_FOLDER :: string
  NIFTI_LOCAL_FOLDER :: string
  NIFTI_SERVER_FOLDER :: string
  NEURO_MORPHOMETRIC_ATLAS_LOCAL_FOLDER :: string
  NEURO_MORPHOMETRIC_ATLAS_SERVER_FOLDER :: string
  MPM_MAPS_LOCAL_FOLDER :: string
  MPM_MAPS_SERVER_FOLDER :: string

definition hc_DAG_NAME :: string where
  "hc_DAG_NAME = ''mri_pre_process_dicom''"

definition hc_dicom_to_nifti_pipeline_path :: "mri_section \<Rightarrow> string" where
  "hc_dicom_to_nifti_pipeline_path c = PIPELINES_PATH c @ ''/Nifti_Conversion_Pipeline''"

definition hc_neuro_morphometric_atlas_pipeline_path :: "mri_section \<Rightarrow> string" where
  "hc_neuro_morphometric_atlas_pipeline_path c =
     PIPELINES_PATH c @ ''/NeuroMorphometric_Pipeline/NeuroMorphometric_tbx/label''"

definition hc_mpm_maps_pipeline_path :: "mri_section \<Rightarrow> string" where
  "hc_mpm_maps_pipeline_path c = PIPELINES_PATH c @ ''/MPMs_Pipeline''"

definition hc_misc_library_path :: "mri_section \<Rightarrow> string" where
  "hc_misc_library_path c = PIPELINES_PATH c @ ''/../Miscellaneous&Others''"

definition hc_default_args :: default_args where
  "hc_default_args =
     \<lparr>owner = ''airflow'', depends_on_past = False, default_retries = 1,
      default_retry_delay = seconds 120, email = ''ludovic.claude@chuv.ch'',
      email_on_failure = True, email_on_retry = True\<rparr>"

definition hc_check_free_space_task :: "mri_section \<Rightarrow> operator" where
  "hc_check_free_space_task c =
     (new_operator FreeSpaceSensor ''check_free_space'')
       \<lparr>path := Some (DICOM_LOCAL_FOLDER c),
        free_disk_threshold := Some (MIN_FREE_SPACE_LOCAL_FOLDER c),
        retry_delay := Some (hours 1),
        retries := Some (24 * 7),
        pool := Some ''remote_file_copy''\<rparr>"

definition hc_copy_dicom_to_local_task :: "mri_section \<Rightarrow> operator" where
  "hc_copy_dicom_to_local_task c =
     (new_operator BashOperator ''copy_dicom_to_local'')
       \<lparr>bash_command := Some hc_copy_dicom_to_local_cmd,
        params := [(''local_output_folder'', PyStr (DICOM_LOCAL_FOLDER c)),
                   (''min_free_space_local_folder'', PyFloat (MIN_FREE_SPACE_LOCAL_FOLDER c))],
        pool := Some ''remote_file_copy'',
        priority_weight := Some 10,
        execution_timeout := Some (hours 3)\<rparr>"

definition hc_prepare_pipeline_task :: "mri_section \<Rightarrow> operator" where
  "hc_prepare_pipeline_task c =
     (new_operator PreparePipelineOperator ''prepare_pipeline'')
       \<lparr>initial_root_folder := Some (DICOM_LOCAL_FOLDER c),
        priority_weight := Some 12,
        execution_timeout := Some (minutes 10)\<rparr>"

definition hc_extract_dicom_info_task :: operator where
  "hc_extract_dicom_info_task =
     (new_operator PythonPipelineOperator ''extract_dicom_info'')
       \<lparr>python_callable := Some extract_dicom_info_fn_ref,
        parent_task := Some ''prepare_pipeline'',
        priority_weight := Some 15,
        execution_timeout := Some (hours 6)\<rparr>"

definition hc_dicom_to_nifti_pipeline_task :: "mri_section \<Rightarrow> operator" where
  "hc_dicom_to_nifti_pipeline_task c =
     (new_operator SpmPipelineOperator ''dicom_to_nifti_pipeline'')
       \<lparr>spm_function := Some ''DCM2NII_LREN'',
        spm_arguments_callable := Some dicom_to_nifti_arguments_fn_ref,
        matlab_paths := Some [PyStr (hc_misc_library_path c),
                              PyStr (hc_dicom_to_nifti_pipeline_path c)],
        output_folder_base := Some (PyStr (NIFTI_LOCAL_FOLDER c)),
        pool := Some ''image_preprocessing'',
        parent_task := Some ''prepare_pipeline'',
        priority_weight := Some 20,
        execution_timeout := Some (hours 24)\<rparr>"

definition hc_cleanup_local_dicom_task :: "mri_section \<Rightarrow> operator" where
  "hc_cleanup_local_dicom_task c =
     (new_operator BashOperator ''cleanup_local_dicom'')
       \<lparr>bash_command := Some hc_cleanup_local_dicom_cmd,
        params := [(''local_folder'', PyStr (DICOM_LOCAL_FOLDER c))],
        priority_weight := Some 25,
        execution_timeout := Some (hours 1)\<rparr>"

definition hc_extract_nifti_info_task :: operator where
  "hc_extract_nifti_info_task =
     (new_operator PythonPipelineOperator ''extract_nifti_info'')
       \<lparr>python_callable := Some extract_nifti_info_fn_ref,
        parent_task := Some ''dicom_to_nifti_pipeline'',
        priority_weight := Some 21,
        execution_timeout := Some (hours 3)\<rparr>"

definition hc_mpm_maps_pipeline_task :: "mri_section \<Rightarrow> operator" where
  "hc_mpm_maps_pipeline_task c =
     (new_operator SpmPipelineOperator ''mpm_maps_pipeline'')
       \<lparr>spm_function := Some ''Preproc_mpm_maps'',
        spm_arguments_callable := Some mpm_maps_arguments_fn_ref,
        matlab_paths := Some [PyStr (hc_misc_library_path c),
                              PyStr (hc_mpm_maps_pipeline_path c)],
        output_folder_base := Some (PyStr (MPM_MAPS_LOCAL_FOLDER c)),
        priority_weight := Some 30,
        execution_timeout := Some (hours 3),
        pool := Some ''image_preprocessing'',
        parent_task := Some ''dicom_to_nifti_pipeline''\<rparr>"

definition hc_extract_nifti_mpm_info_task :: operator where
  "hc_extract_nifti_mpm_info_task =
     (new_operator PythonPipelineOperator ''extract_nifti_mpm_info'')
       \<lparr>python_callable := Some extract_nifti_info_fn_ref,
        parent_task := Some ''mpm_maps_pipeline'',
        priority_weight := Some 35,
        execution_timeout := Some (hours 3)\<rparr>"

definition hc_neuro_morphometric_atlas_pipeline_task :: "mri_section \<Rightarrow> operator" where
  "hc_neuro_morphometric_atlas_pipeline_task c =
     (new_operator SpmPipelineOperator ''neuro_morphometric_atlas_pipeline'')
       \<lparr>spm_function := Some ''NeuroMorphometric_pipeline'',
        spm_arguments_callable := Some neuro_morphometric_atlas_arguments_fn_ref,
        matlab_paths := Some [PyStr (hc_misc_library_path c),
                              PyStr (hc_neuro_morphometric_atlas_pipeline_path c)],
        output_folder_base := Some (PyStr (NEURO_MORPHOMETRIC_ATLAS_LOCAL_FOLDER c)),
        pool := Some ''image_preprocessing'',
        parent_task := Some ''mpm_maps_pipeline'',
        priority_weight := Some 40,
        execution_timeout := Some (hours 24)\<rparr>"

definition hc_extract_nifti_atlas_info_task :: operator where
  "hc_extract_nifti_atlas_info_task =
     (new_operator PythonPipelineOperator ''extract_nifti_atlas_info'')
       \<lparr>python_callable := Some extract_nifti_info_fn_ref,
        parent_task := Some ''neuro_morphometric_atlas_pipeline'',
        priority_weight := Some 45,
        execution_timeout := Some (hours 3)\<rparr>"

text \<open>The module-level statements that build \<open>dag\<close>, in order.\<close>

definition hc_dag :: "mri_section \<Rightarrow> dag" where
  "hc_dag c =
     (let dag0 = DAG hc_DAG_NAME hc_default_args None;
          check_free_space = hc_check_free_space_task c;
          dag1 = add_task check_free_space dag0;
          copy = hc_copy_dicom_to_local_task c;
          dag2 = set_upstream copy check_free_space (add_task copy dag1);
          prepare_pipeline = hc_prepare_pipeline_task c;
          dag3 = set_upstream prepare_pipeline copy (add_task prepare_pipeline dag2);
          extract_dicom_info = hc_extract_dicom_info_task;
          dag4 = set_upstream extract_dicom_info prepare_pipeline
                   (add_task extract_dicom_info dag3);
          dicom_to_nifti_pipeline = hc_dicom_to_nifti_pipeline_task c;
          dag5 = set_upstream dicom_to_nifti_pipeline prepare_pipeline
                   (add_task dicom_to_nifti_pipeline dag4);
          cleanup_local_dicom = hc_cleanup_local_dicom_task c;
          dag6 = set_upstream cleanup_local_dicom dicom_to_nifti_pipeline
                   (add_task cleanup_local_dicom dag5);
          extract_nifti_info = hc_extract_nifti_info_task;
          dag7 = set_upstream extract_nifti_info dicom_to_nifti_pipeline
                   (add_task extract_nifti_info dag6);
          mpm_maps_pipeline = hc_mpm_maps_pipeline_task c;
          dag8 = set_upstream mpm_maps_pipeline dicom_to_nifti_pipeline
                   (add_task mpm_maps_pipeline dag7);
          extract_nifti_mpm_info = hc_extract_nifti_mpm_info_task;
          dag9 = set_upstream extract_nifti_mpm_info mpm_maps_pipeline
                   (add_task extract_nifti_mpm_info dag8);
          neuro_morphometric_atlas_pipeline = hc_neuro_morphometric_atlas_pipeline_task c;
          dag10 = set_upstream neuro_morphometric_atlas_pipeline mpm_maps_pipeline
                    (add_task neuro_morphometric_atlas_pipeline dag9);
          extract_nifti_atlas_info = hc_extract_nifti_atlas_info_task
      in set_upstream extract_nifti_atlas_info neuro_morphometric_atlas_pipeline
           (add_task extract_nifti_atlas_info dag10))"

section \<open>The callables handed to the operators\<close>

subsection \<open>Name resolution\<close>

text \<open>
  The argument builders read names that they do not bind themselves. A name is looked up
  in the function's own variables, then in the enclosing function (for a nested
  function), then in the globals of the module, then among the builtins; a name bound
  nowhere raises \<open>NameError\<close>. A namespace lists the names it binds with their values,
  and a scope chain lists the namespaces from the innermost outwards.
\<close>

datatype error = NameError string

type_synonym namespace = "(string \<times> pyval) list"

definition load_name :: "namespace list \<Rightarrow> string \<Rightarrow> error + pyval" where
  "load_name scopes n =
     (case map_of (concat scopes) n of None \<Rightarrow> Inl (NameError n) | Some v \<Rightarrow> Inr v)"

text \<open>Names bound to objects whose value plays no role here.\<close>

definition objects :: "string list \<Rightarrow> namespace" where
  "objects names = map (\<lambda>n. (n, PyObj n)) names"

text \<open>
  A list display evaluates its elements from left to right; the first element that raises
  ends the evaluation.
\<close>

fun build_list :: "(error + pyval) list \<Rightarrow> error + pyval list" where
  "build_list [] = Inr []"
| "build_list (Inl e # rs) = Inl e"
| "build_list (Inr v # rs) =
     (case build_list rs of Inl e \<Rightarrow> Inl e | Inr vs \<Rightarrow> Inr (v # vs))"

text \<open>
  The names every module sees without importing them: the built-in functions and
  constants of the language, and the names a module object has from the start.
\<close>

definition builtins :: namespace where
  "builtins = objects
     [''abs'', ''all'', ''any'', ''ascii'', ''bin'', ''bool'', ''bytearray'', ''bytes'',
      ''callable'', ''chr'', ''classmethod'', ''compile'', ''complex'', ''delattr'',
      ''dict'', ''dir'', ''divmod'', ''enumerate'', ''eval'', ''exec'', ''filter'',
      ''float'', ''format'', ''frozenset'', ''getattr'', ''globals'', ''hasattr'',
      ''hash'', ''help'', ''hex'', ''id'', ''input'', ''int'', ''isinstance'',
      ''issubclass'', ''iter'', ''len'', ''list'', ''locals'', ''map'', ''max'',
      ''memoryview'', ''min'', ''next'', ''object'', ''oct'', ''open'', ''ord'', ''pow'',
      ''print'', ''property'', ''range'', ''repr'', ''reversed'', ''round'', ''set'',
      ''setattr'', ''slice'', ''sorted'', ''staticmethod'', ''str'', ''sum'', ''super'',
      ''tuple'', ''type'', ''vars'', ''zip'', ''__import__'', ''True'', ''False'',
      ''None'', ''NotImplemented'', ''Ellipsis'', ''__debug__'']"

definition module_attributes :: namespace where
  "module_attributes = objects
     [''__name__'', ''__doc__'', ''__package__'', ''__loader__'', ''__spec__'',
      ''__file__'', ''__cached__'', ''__builtins__'']"

text \<open>\<open>parent_data_folder = os.path.abspath(folder + '/..')\<close>.\<close>

definition parent_data_folder_of :: "world \<Rightarrow> namespace list \<Rightarrow> string \<Rightarrow> error + string" where
  "parent_data_folder_of w scopes folder =
     (case load_name scopes ''os'' of
        Inl e \<Rightarrow> Inl e
      | Inr os \<Rightarrow> Inr (abspath w (folder @ ''/..'')))"

subsection \<open>The functions nested in \<open>pre_process_dicom_dag\<close>\<close>

text \<open>
  The names the module \<open>mri_pipelines/pre_process_dicom.py\<close> binds at its top level:
  its imports and the one function it defines.
\<close>

definition module_globals :: namespace where
  "module_globals = module_attributes @ objects
     [''logging'', ''os'', ''datetime'', ''timedelta'', ''dedent'', ''DAG'',
      ''BashOperator'', ''TriggerDagRunOperator'', ''SpmPipelineOperator'',
      ''FreeSpaceSensor'', ''PreparePipelineOperator'', ''PythonPipelineOperator'',
      ''pipeline_trigger'', ''configuration'', ''dicom_import'', ''nifti_import'',
      ''pre_process_dicom_dag'']"

text \<open>
  The names bound in the body of \<open>pre_process_dicom_dag\<close> once it has run: its
  parameters with the values of the call, then the names it assigns. A name assigned
  under an \<open>if\<close> is bound when the branch was taken; \<open>copy_dicom_to_local\<close> is
  rebound to the task when the switch is on.
\<close>

definition enclosing :: "dag_args \<Rightarrow> namespace" where
  "enclosing a =
     [(''dataset'', PyStr (dataset a)),
      (''email_errors_to'', PyStr (email_errors_to a)),
      (''max_active_runs'', PyInt (max_active_runs a)),
      (''misc_library_path'', PyStr (misc_library_path a)),
      (''min_free_space_local_folder'', PyFloat (min_free_space_local_folder a)),
      (''dicom_local_folder'', PyStr (dicom_local_folder a)),
      (''copy_dicom_to_local'',
         if copy_dicom_to_local a then PyObj ''copy_dicom_to_local'' else PyBool False),
      (''dicom_organizer'', PyBool (dicom_organizer a)),
      (''dicom_organizer_spm_function'', PyStr (dicom_organizer_spm_function a)),
      (''dicom_organizer_pipeline_path'', dicom_organizer_pipeline_path a),
      (''dicom_organizer_local_folder'', dicom_organizer_local_folder a),
      (''dicom_organizer_data_structure'', PyStr (dicom_organizer_data_structure a)),
      (''dicom_to_nifti_spm_function'', PyStr (dicom_to_nifti_spm_function a)),
      (''dicom_to_nifti_pipeline_path'', dicom_to_nifti_pipeline_path a),
      (''dicom_to_nifti_local_folder'', dicom_to_nifti_local_folder a),
      (''dicom_to_nifti_server_folder'', dicom_to_nifti_server_folder a),
      (''mpm_maps'', PyBool (mpm_maps a)),
      (''mpm_maps_spm_function'', PyStr (mpm_maps_spm_function a)),
      (''mpm_maps_pipeline_path'', mpm_maps_pipeline_path a),
      (''mpm_maps_local_folder'', mpm_maps_local_folder a),
      (''mpm_maps_server_folder'', mpm_maps_server_folder a),
      (''neuro_morphometric_atlas'', PyBool (neuro_morphometric_atlas a)),
      (''neuro_morphometric_atlas_spm_function'',
         PyStr (neuro_morphometric_atlas_spm_function a)),
      (''neuro_morphometric_atlas_pipeline_path'', neuro_morphometric_atlas_pipeline_path a),
      (''neuro_morphometric_atlas_local_folder'', neuro_morphometric_atlas_local_folder a),
      (''neuro_morphometric_atlas_server_folder'', neuro_morphometric_atlas_server_folder a)]
     @ objects
         [''extract_dicom_info_fn'', ''dicom_organizer_arguments_fn'',
          ''dicom_to_nifti_arguments_fn'', ''neuro_morphometric_atlas_arguments_fn'',
          ''mpm_maps_arguments_fn'', ''extract_nifti_info_fn'', ''DAG_NAME'',
          ''default_args'', ''dag'', ''check_free_space'', ''upstream'', ''upstream_id'']
     @ (if copy_dicom_to_local a then objects [''copy_dicom_to_local_cmd''] else [])
     @ objects [''prepare_pipeline'']
     @ (if dicom_organizer a then objects [''dicom_organizer_pipeline''] else [])
     @ objects
         [''extract_dicom_info'', ''dicom_to_nifti_pipeline'', ''cleanup_local_dicom_cmd'',
          ''cleanup_local_dicom'', ''extract_nifti_info'', ''notify_success'']
     @ (if mpm_maps a then objects [''mpm_maps_pipeline'', ''extract_nifti_mpm_info''] else [])
     @ (if neuro_morphometric_atlas a
        then objects [''neuro_morphometric_atlas_pipeline'', ''extract_nifti_atlas_info'']
        else [])"

text \<open>The scope chain of a function nested in \<open>pre_process_dicom_dag\<close>.\<close>

definition nested_scopes :: "dag_args \<Rightarrow> namespace \<Rightarrow> namespace list" where
  "nested_scopes a locals = [locals, enclosing a, module_globals, builtins]"

definition dicom_organizer_arguments_fn ::
    "world \<Rightarrow> dag_args \<Rightarrow> string \<Rightarrow> string \<Rightarrow> error + pyval list" where
  "dicom_organizer_arguments_fn w a folder session_id =
     (let locals = [(''folder'', PyStr folder), (''session_id'', PyStr session_id),
                    (''kwargs'', PyObj ''kwargs'')]
      in case parent_data_folder_of w (nested_scopes a locals) folder of
           Inl e \<Rightarrow> Inl e
         | Inr parent_data_folder \<Rightarrow>
             (let scopes = nested_scopes a
                    (locals @ [(''parent_data_folder'', PyStr parent_data_folder)])
              in build_list (map (load_name scopes)
                   [''parent_data_folder'', ''dicom_organizer_local_folder'', ''session_id'',
                    ''dicom_organizer_data_structure'', ''protocols_file''])))"

definition dicom_to_nifti_arguments_fn ::
    "world \<Rightarrow> dag_args \<Rightarrow> string \<Rightarrow> string \<Rightarrow> pyval \<Rightarrow> pyval \<Rightarrow> error + pyval list" where
  "dicom_to_nifti_arguments_fn w a folder session_id participant_id scan_date =
     (let locals = [(''folder'', PyStr folder), (''session_id'', PyStr session_id),
                    (''participant_id'', participant_id), (''scan_date'', scan_date),
                    (''kwargs'', PyObj ''kwargs'')]
      in case parent_data_folder_of w (nested_scopes a locals) folder of
           Inl e \<Rightarrow> Inl e
         | Inr parent_data_folder \<Rightarrow>
             (let scopes = nested_scopes a
                    (locals @ [(''parent_data_folder'', PyStr parent_data_folder)])
              in build_list (map (load_name scopes)
                   [''parent_data_folder'', ''session_id'', ''dicom_to_nifti_local_folder'',
                    ''dicom_to_nifti_server_folder'', ''protocols_file''])))"

definition neuro_morphometric_atlas_arguments_fn ::
    "world \<Rightarrow> dag_args \<Rightarrow> string \<Rightarrow> string \<Rightarrow> pyval \<Rightarrow> pyval \<Rightarrow> error + pyval list" where
  "neuro_morphometric_atlas_arguments_fn w a folder session_id participant_id scan_date =
     (let locals = [(''folder'', PyStr folder), (''session_id'', PyStr session_id),
                    (''participant_id'', participant_id), (''scan_date'', scan_date),
                    (''kwargs'', PyObj ''kwargs'')]
      in case parent_data_folder_of w (nested_scopes a locals) folder of
           Inl e \<Rightarrow> Inl e
         | Inr parent_data_folder \<Rightarrow>
             (let scopes = nested_scopes a
                    (locals @ [(''parent_data_folder'', PyStr parent_data_folder),
                               (''table_format'', PyStr ''csv'')])
              in build_list (map (load_name scopes)
                   [''session_id'', ''parent_data_folder'',
                    ''neuro_morphometric_atlas_local_folder'',
                    ''neuro_morphometric_atlas_server_folder'', ''protocols_file'',
                    ''table_format''])))"

text \<open>
  \<open>pipeline_params_config_file\<close> is a keyword parameter with a default: \<open>None\<close> stands
  for a call that does not pass it.
\<close>

definition mpm_maps_arguments_fn ::
    "world \<Rightarrow> dag_args \<Rightarrow> string \<Rightarrow> string \<Rightarrow> pyval \<Rightarrow> pyval \<Rightarrow> string option
       \<Rightarrow> error + pyval list" where
  "mpm_maps_arguments_fn w a folder session_id participant_id scan_date
       pipeline_params_config_file =
     (let locals = [(''folder'', PyStr folder), (''session_id'', PyStr session_id),
                    (''participant_id'', participant_id), (''scan_date'', scan_date),
                    (''pipeline_params_config_file'',
                       PyStr (case pipeline_params_config_file of
                                None \<Rightarrow> ''Preproc_mpm_maps_pipeline_config.txt''
                              | Some f \<Rightarrow> f)),
                    (''kwargs'', PyObj ''kwargs'')]
      in case parent_data_folder_of w (nested_scopes a locals) folder of
           Inl e \<Rightarrow> Inl e
         | Inr parent_data_folder \<Rightarrow>
             (let scopes = nested_scopes a
                    (locals @ [(''parent_data_folder'', PyStr parent_data_folder)])
              in build_list (map (load_name scopes)
                   [''parent_data_folder'', ''session_id'', ''mpm_maps_local_folder'',
                    ''protocols_file'', ''pipeline_params_config_file'',
                    ''mpm_maps_server_folder''])))"

text \<open>
  The two extraction callables call into the logging module and into the metadata
  extraction library. A call is recorded with the name of the module object, the name of
  the function and the positional arguments; the callable returns the calls it made, in
  order, and its result.
\<close>

datatype call = Call string string "pyval list"

fun call_name :: "call \<Rightarrow> string" where
  "call_name (Call m f args) = f"

definition extract_dicom_info_fn ::
    "world \<Rightarrow> string \<Rightarrow> string \<Rightarrow> call list \<times> (string \<times> pyval) list" where
  "extract_dicom_info_fn w folder session_id =
     (let log = Call ''logging'' ''info''
                  [PyStr (''folder '' @ folder @ '', session_id '' @ session_id)];
          (participant_id, scan_date) = visit_info w folder
      in ([log,
           Call ''dicom_import'' ''visit_info'' [PyStr folder],
           Call ''dicom_import'' ''dicom2db'' [PyStr folder]],
          [(''participant_id'', participant_id), (''scan_date'', scan_date)]))"

definition extract_nifti_info_fn ::
    "string \<Rightarrow> string \<Rightarrow> pyval \<Rightarrow> pyval \<Rightarrow> call list \<times> string" where
  "extract_nifti_info_fn folder session_id participant_id scan_date =
     (let log = Call ''logging'' ''info''
                  [PyStr (''NIFTI extract: session_id='' @ session_id
                            @ '', input_folder='' @ folder)]
      in ([log, Call ''nifti_import'' ''nifti2db'' [PyStr folder, participant_id, scan_date]],
          ''ok''))"

subsection \<open>The functions of the hard-coded module\<close>

text \<open>
  The names \<open>mri_pre_process_dicom.py\<close> binds at its top level: its imports, the
  constants it reads from the configuration, its functions and its tasks.
\<close>

definition hc_module_globals :: "mri_section \<Rightarrow> namespace" where
  "hc_module_globals c =
     module_attributes
     @ objects
         [''logging'', ''os'', ''datetime'', ''timedelta'', ''partial'', ''DAG'',
          ''BashOperator'', ''SpmPipelineOperator'', ''FreeSpaceSensor'',
          ''PreparePipelineOperator'', ''PythonPipelineOperator'', ''configuration'',
          ''dicom_import'', ''nifti_import'']
     @ [(''DAG_NAME'', PyStr hc_DAG_NAME),
        (''pipelines_path'', PyStr (PIPELINES_PATH c)),
        (''protocols_file'', PyStr (PROTOCOLS_FILE c)),
        (''min_free_space_local_folder'', PyFloat (MIN_FREE_SPACE_LOCAL_FOLDER c)),
        (''dicom_local_folder'', PyStr (DICOM_LOCAL_FOLDER c)),
        (''dicom_to_nifti_local_folder'', PyStr (NIFTI_LOCAL_FOLDER c)),
        (''dicom_to_nifti_server_folder'', PyStr (NIFTI_SERVER_FOLDER c)),
        (''dicom_to_nifti_pipeline_path'', PyStr (hc_dicom_to_nifti_pipeline_path c)),
        (''neuro_morphometric_atlas_local_folder'',
           PyStr (NEURO_MORPHOMETRIC_ATLAS_LOCAL_FOLDER c)),
        (''neuro_morphometric_atlas_server_folder'',
           PyStr (NEURO_MORPHOMETRIC_ATLAS_SERVER_FOLDER c)),
        (''neuro_morphometric_atlas_pipeline_path'',
           PyStr (hc_neuro_morphometric_atlas_pipeline_path c)),
        (''mpm_maps_local_folder'', PyStr (MPM_MAPS_LOCAL_FOLDER c)),
        (''mpm_maps_server_folder'', PyStr (MPM_MAPS_SERVER_FOLDER c)),
        (''mpm_maps_pipeline_path'', PyStr (hc_mpm_maps_pipeline_path c)),
        (''misc_library_path'', PyStr (hc_misc_library_path c))]
     @ objects
         [''extract_dicom_info_fn'', ''dicom_to_nifti_arguments_fn'',
          ''neuro_morphometric_atlas_arguments_fn'', ''mpm_maps_arguments_fn'',
          ''extract_nifti_info_fn'', ''default_args'', ''dag'', ''check_free_space'',
          ''copy_dicom_to_local_cmd'', ''copy_dicom_to_local'', ''prepare_pipeline'',
          ''extract_dicom_info'', ''dicom_to_nifti_pipeline'', ''cleanup_local_dicom_cmd'',
          ''cleanup_local_dicom'', ''extract_nifti_info'', ''mpm_maps_pipeline'',
          ''extract_nifti_mpm_info'', ''neuro_morphometric_atlas_pipeline'',
          ''extract_nifti_atlas_info'']"

definition hc_scopes :: "mri_section \<Rightarrow> namespace \<Rightarrow> namespace list" where
  "hc_scopes c locals = [locals, hc_module_globals c, builtins]"

definition hc_dicom_to_nifti_arguments_fn ::
    "world \<Rightarrow> mri_section \<Rightarrow> string \<Rightarrow> string \<Rightarrow> pyval \<Rightarrow> pyval \<Rightarrow> error + pyval list" where
  "hc_dicom_to_nifti_arguments_fn w c folder session_id participant_id scan_date =
     (let locals = [(''folder'', PyStr folder), (''session_id'', PyStr session_id),
                    (''participant_id'', participant_id), (''scan_date'', scan_date),
                    (''kwargs'', PyObj ''kwargs'')]
      in case parent_data_folder_of w (hc_scopes c locals) folder of
           Inl e \<Rightarrow> Inl e
         | Inr parent_data_folder \<Rightarrow>
             (let scopes = hc_scopes c
                    (locals @ [(''parent_data_folder'', PyStr parent_data_folder)])
              in build_list (map (load_name scopes)
                   [''parent_data_folder'', ''session_id'', ''dicom_to_nifti_local_folder'',
                    ''dicom_to_nifti_server_folder'', ''protocols_file''])))"

definition hc_neuro_morphometric_atlas_arguments_fn ::
    "world \<Rightarrow> mri_section \<Rightarrow> string \<Rightarrow> string \<Rightarrow> pyval \<Rightarrow> pyval \<Rightarrow> error + pyval list" where
  "hc_neuro_morphometric_atlas_arguments_fn w c folder session_id participant_id scan_date =
     (let locals = [(''folder'', PyStr folder), (''session_id'', PyStr session_id),
                    (''participant_id'', participant_id), (''scan_date'', scan_date),
                    (''kwargs'', PyObj ''kwargs'')]
      in case parent_data_folder_of w (hc_scopes c locals) folder of
           Inl e \<Rightarrow> Inl e
         | Inr parent_data_folder \<Rightarrow>
             (let scopes = hc_scopes c
                    (locals @ [(''parent_data_folder'', PyStr parent_data_folder),
                               (''table_format'', PyStr ''csv'')])
              in build_list (map (load_name scopes)
                   [''session_id'', ''parent_data_folder'',
                    ''neuro_morphometric_atlas_local_folder'',
                    ''neuro_morphometric_atlas_server_folder'', ''protocols_file'',
                    ''table_format''])))"

definition hc_mpm_maps_arguments_fn ::
    "world \<Rightarrow> mri_section \<Rightarrow> string \<Rightarrow> string \<Rightarrow> pyval \<Rightarrow> pyval \<Rightarrow> error + pyval list" where
  "hc_mpm_maps_arguments_fn w c folder session_id participant_id scan_date =
     (let locals = [(''folder'', PyStr folder), (''session_id'', PyStr session_id),
                    (''participant_id'', participant_id), (''scan_date'', scan_date),
                    (''kwargs'', PyObj ''kwargs'')]
      in case parent_data_folder_of w (hc_scopes c locals) folder of
           Inl e \<Rightarrow> Inl e
         | Inr parent_data_folder \<Rightarrow>
             (let scopes = hc_scopes c
                    (locals @ [(''parent_data_folder'', PyStr parent_data_folder),
                               (''pipeline_params_config_file'',
                                  PyStr ''Preproc_mpm_maps_pipeline_config.txt'')])
              in build_list (map (load_name scopes)
                   [''parent_data_folder'', ''session_id'', ''mpm_maps_local_folder'',
                    ''protocols_file'', ''pipeline_params_config_file'',
                    ''mpm_maps_server_folder''])))"

definition hc_extract_dicom_info_fn ::
    "world \<Rightarrow> string \<Rightarrow> string \<Rightarrow> call list \<times> (string \<times> pyval) list" where
  "hc_extract_dicom_info_fn w folder session_id =
     (let log = Call ''logging'' ''info''
                  [PyStr (''folder '' @ folder @ '', session_id '' @ session_id)];
          (participant_id, scan_date) = visit_info w folder
      in ([log,
           Call ''dicom_import'' ''visit_info'' [PyStr folder],
           Call ''dicom_import'' ''dicom2db'' [PyStr folder]],
          [(''participant_id'', participant_id), (''scan_date'', scan_date)]))"

definition hc_extract_nifti_info_fn ::
    "string \<Rightarrow> string \<Rightarrow> pyval \<Rightarrow> pyval \<Rightarrow> call list \<times> string" where
  "hc_extract_nifti_info_fn folder session_id participant_id scan_date =
     (let log = Call ''logging'' ''info''
                  [PyStr (''NIFTI extract: session_id='' @ session_id
                            @ '', input_folder='' @ folder)]
      in ([log, Call ''nifti_import'' ''nifti2db'' [PyStr folder, participant_id, scan_date]],
          ''ok''))"

section \<open>The reusable step: \<open>preprocessing_steps/copy_to_local.py\<close>\<close>

text \<open>
  A step handle. The class \<open>Step\<close> comes from the module \<open>common_steps\<close>;
  \<open>copy_to_local.py\<close> builds it from a task, a task id and a priority weight, in this
  order, and reads these three attributes of the upstream handle. A handle may carry no
  task (\<open>None\<close>). The fields of the handle carry the prefix \<open>step_\<close> where the operator
  record has a field of the same name.
\<close>

record step =
  task :: "operator option"
  step_task_id :: "string option"
  step_priority_weight :: int

definition Step :: "operator option \<Rightarrow> string option \<Rightarrow> int \<Rightarrow> step" where
  "Step t tid w = \<lparr>task = t, step_task_id = tid, step_priority_weight = w\<rparr>"

text \<open>
  \<open>copy_to_local_step\<close> registers the operator in the DAG, links it below the upstream
  task if the upstream handle has one, and returns the DAG with the new handle.
\<close>

definition copy_to_local_task :: "step \<Rightarrow> real \<Rightarrow> string \<Rightarrow> string list \<Rightarrow> operator" where
  "copy_to_local_task upstream_step min_free_space output_folder ds_config =
     (new_operator BashPipelineOperator ''copy_to_local'')
       \<lparr>bash_command := Some copy_to_local_cmd,
        params := [(''min_free_space'', PyFloat min_free_space)],
        output_folder_base := Some (PyStr output_folder),
        pool := Some ''remote_file_copy'',
        parent_task := step_task_id upstream_step,
        priority_weight := Some (step_priority_weight upstream_step),
        execution_timeout := Some (hours 3),
        on_failure_trigger_dag_id := Some ''mri_notify_failed_processing'',
        dataset_config := Some ds_config,
        organised_folder := Some False\<rparr>"

definition copy_to_local_step ::
    "dag \<Rightarrow> step \<Rightarrow> real \<Rightarrow> string \<Rightarrow> string list \<Rightarrow> dag \<times> step" where
  "copy_to_local_step d upstream_step min_free_space output_folder ds_config =
     (let copy_to_local = copy_to_local_task upstream_step min_free_space output_folder ds_config;
          d1 = add_task copy_to_local d;
          d2 = (case task upstream_step of
                  Some upstream_task \<Rightarrow> set_upstream copy_to_local upstream_task d1
                | None \<Rightarrow> d1)
      in (d2, Step (Some copy_to_local) (Some (task_id copy_to_local))
                (step_priority_weight upstream_step + 10)))"

section \<open>Calls to compare and to evaluate\<close>

text \<open>
  The call of \<open>pre_process_dicom_dag\<close> that leaves the switches and the SPM function
  names at their defaults and passes the folders and paths of the hard-coded module.
\<close>

definition call_with_config :: "mri_section \<Rightarrow> string \<Rightarrow> string \<Rightarrow> int \<Rightarrow> dag_args" where
  "call_with_config c ds mail runs =
     (default_call ds mail runs (hc_misc_library_path c) (MIN_FREE_SPACE_LOCAL_FOLDER c)
        (DICOM_LOCAL_FOLDER c))
       \<lparr>dicom_to_nifti_pipeline_path := PyStr (hc_dicom_to_nifti_pipeline_path c),
        dicom_to_nifti_local_folder := PyStr (NIFTI_LOCAL_FOLDER c),
        dicom_to_nifti_server_folder := PyStr (NIFTI_SERVER_FOLDER c),
        mpm_maps_pipeline_path := PyStr (hc_mpm_maps_pipeline_path c),
        mpm_maps_local_folder := PyStr (MPM_MAPS_LOCAL_FOLDER c),
        mpm_maps_server_folder := PyStr (MPM_MAPS_SERVER_FOLDER c),
        neuro_morphometric_atlas_pipeline_path :=
          PyStr (hc_neuro_morphometric_atlas_pipeline_path c),
        neuro_morphometric_atlas_local_folder :=
          PyStr (NEURO_MORPHOMETRIC_ATLAS_LOCAL_FOLDER c),
        neuro_morphometric_atlas_server_folder :=
          PyStr (NEURO_MORPHOMETRIC_ATLAS_SERVER_FOLDER c)\<rparr>"

definition sample_config :: mri_section where
  "sample_config =
     \<lparr>PIPELINES_PATH = ''/opt/pipelines'', PROTOCOLS_FILE = ''/opt/protocols.txt'',
      MIN_FREE_SPACE_LOCAL_FOLDER = 0.25, DICOM_LOCAL_FOLDER = ''/data/dicom'',
      NIFTI_LOCAL_FOLDER = ''/data/nifti'', NIFTI_SERVER_FOLDER = ''/srv/nifti'',
      NEURO_MORPHOMETRIC_ATLAS_LOCAL_FOLDER = ''/data/atlas'',
      NEURO_MORPHOMETRIC_ATLAS_SERVER_FOLDER = ''/srv/atlas'',
      MPM_MAPS_LOCAL_FOLDER = ''/data/mpm'', MPM_MAPS_SERVER_FOLDER = ''/srv/mpm''\<rparr>"

definition sample_args :: dag_args where
  "sample_args = call_with_config sample_config ''LREN data'' ''ops@example.org'' 4"

text \<open>
  A sample of the outside: it lower-cases the letters A to Z (the sample dataset name has
  no other capital), has \<open>abspath\<close> return its argument and \<open>visit_info\<close> return one
  fixed visit.
\<close>

definition ascii_lower :: "string \<Rightarrow> string" where
  "ascii_lower xs =
     map (\<lambda>c. let n = (of_char c :: nat)
              in if 65 \<le> n \<and> n \<le> 90 then char_of (n + 32) else c) xs"

definition sample_world :: world where
  "sample_world =
     \<lparr>str_lower = ascii_lower, abspath = (\<lambda>p. p),
      visit_info = (\<lambda>folder. (PyStr ''PR00001'', PyStr ''2016-05-17''))\<rparr>"



definition spm_operators :: "dag \<Rightarrow> operator list" where
  "spm_operators d = filter (\<lambda>t. operator_class t = SpmPipelineOperator) (tasks d)"

definition all_switches_on :: "dag_args \<Rightarrow> dag_args" where
  "all_switches_on a =
     a\<lparr>copy_dicom_to_local := True, dicom_organizer := True, mpm_maps := True,
       neuro_morphometric_atlas := True\<rparr>"

definition forget_parent :: "operator \<Rightarrow> operator" where
  "forget_parent t = t\<lparr>parent_task := None\<rparr>"

section \<open>Basic facts about the two DAGs\<close>

lemma tasks_add_task: "tasks (add_task t d) = tasks d @ [t]"
  by (simp add: add_task_def)

lemma links_add_task: "links (add_task t d) = links d"
  by (simp add: add_task_def)

lemma tasks_set_upstream: "tasks (set_upstream t u d) = tasks d"
  by (simp add: set_upstream_def)

lemma links_set_upstream: "links (set_upstream t u d) = links d @ [(task_id u, task_id t)]"
  by (simp add: set_upstream_def)

lemma tasks_DAG: "tasks (DAG n args r) = []"
  by (simp add: DAG_def)

lemma links_DAG: "links (DAG n args r) = []"
  by (simp add: DAG_def)

lemmas dag_ops =
  tasks_add_task links_add_task tasks_set_upstream links_set_upstream tasks_DAG links_DAG

lemmas task_defs =
  check_free_space_task_def copy_dicom_to_local_task_def prepare_pipeline_task_def
  dicom_organizer_pipeline_task_def extract_dicom_info_task_def
  dicom_to_nifti_pipeline_task_def cleanup_local_dicom_task_def
  extract_nifti_info_task_def notify_success_task_def mpm_maps_pipeline_task_def
  extract_nifti_mpm_info_task_def neuro_morphometric_atlas_pipeline_task_def
  extract_nifti_atlas_info_task_def

lemmas hc_task_defs =
  hc_check_free_space_task_def hc_copy_dicom_to_local_task_def hc_prepare_pipeline_task_def
  hc_extract_dicom_info_task_def hc_dicom_to_nifti_pipeline_task_def
  hc_cleanup_local_dicom_task_def hc_extract_nifti_info_task_def
  hc_mpm_maps_pipeline_task_def hc_extract_nifti_mpm_info_task_def
  hc_neuro_morphometric_atlas_pipeline_task_def hc_extract_nifti_atlas_info_task_def

lemma task_id_simps:
  "task_id (check_free_space_task a) = ''check_free_space''"
  "task_id (copy_dicom_to_local_task a) = ''copy_dicom_to_local''"
  "task_id (prepare_pipeline_task a) = ''prepare_pipeline''"
  "task_id (dicom_organizer_pipeline_task a u) = ''dicom_organizer_pipeline''"
  "task_id (extract_dicom_info_task u) = ''extract_dicom_info''"
  "task_id (dicom_to_nifti_pipeline_task a u) = ''dicom_to_nifti_pipeline''"
  "task_id (cleanup_local_dicom_task a) = ''cleanup_local_dicom''"
  "task_id (extract_nifti_info_task u) = ''extract_nifti_info''"
  "task_id notify_success_task = ''notify_success''"
  "task_id (mpm_maps_pipeline_task a u) = ''mpm_maps_pipeline''"
  "task_id (extract_nifti_mpm_info_task u) = ''extract_nifti_mpm_info''"
  "task_id (neuro_morphometric_atlas_pipeline_task a u) = ''neuro_morphometric_atlas_pipeline''"
  "task_id extract_nifti_atlas_info_task = ''extract_nifti_atlas_info''"
  by (simp_all add: task_defs new_operator_def)

lemma hc_task_id_simps:
  "task_id (hc_check_free_space_task c) = ''check_free_space''"
  "task_id (hc_copy_dicom_to_local_task c) = ''copy_dicom_to_local''"
  "task_id (hc_prepare_pipeline_task c) = ''prepare_pipeline''"
  "task_id hc_extract_dicom_info_task = ''extract_dicom_info''"
  "task_id (hc_dicom_to_nifti_pipeline_task c) = ''dicom_to_nifti_pipeline''"
  "task_id (hc_cleanup_local_dicom_task c) = ''cleanup_local_dicom''"
  "task_id hc_extract_nifti_info_task = ''extract_nifti_info''"
  "task_id (hc_mpm_maps_pipeline_task c) = ''mpm_maps_pipeline''"
  "task_id hc_extract_nifti_mpm_info_task = ''extract_nifti_mpm_info''"
  "task_id (hc_neuro_morphometric_atlas_pipeline_task c) = ''neuro_morphometric_atlas_pipeline''"
  "task_id hc_extract_nifti_atlas_info_task = ''extract_nifti_atlas_info''"
  by (simp_all add: hc_task_defs new_operator_def)

lemma operator_class_simps:
  "operator_class (check_free_space_task a) = FreeSpaceSensor"
  "operator_class (copy_dicom_to_local_task a) = BashOperator"
  "operator_class (prepare_pipeline_task a) = PreparePipelineOperator"
  "operator_class (dicom_organizer_pipeline_task a u) = SpmPipelineOperator"
  "operator_class (extract_dicom_info_task u) = PythonPipelineOperator"
  "operator_class (dicom_to_nifti_pipeline_task a u) = SpmPipelineOperator"
  "operator_class (cleanup_local_dicom_task a) = BashOperator"
  "operator_class (extract_nifti_info_task u) = PythonPipelineOperator"
  "operator_class notify_success_task = TriggerDagRunOperator"
  "operator_class (mpm_maps_pipeline_task a u) = SpmPipelineOperator"
  "operator_class (extract_nifti_mpm_info_task u) = PythonPipelineOperator"
  "operator_class (neuro_morphometric_atlas_pipeline_task a u) = SpmPipelineOperator"
  "operator_class extract_nifti_atlas_info_task = PythonPipelineOperator"
  by (simp_all add: task_defs new_operator_def)

lemma hc_operator_class_simps:
  "operator_class (hc_check_free_space_task c) = FreeSpaceSensor"
  "operator_class (hc_copy_dicom_to_local_task c) = BashOperator"
  "operator_class (hc_prepare_pipeline_task c) = PreparePipelineOperator"
  "operator_class hc_extract_dicom_info_task = PythonPipelineOperator"
  "operator_class (hc_dicom_to_nifti_pipeline_task c) = SpmPipelineOperator"
  "operator_class (hc_cleanup_local_dicom_task c) = BashOperator"
  "operator_class hc_extract_nifti_info_task = PythonPipelineOperator"
  "operator_class (hc_mpm_maps_pipeline_task c) = SpmPipelineOperator"
  "operator_class hc_extract_nifti_mpm_info_task = PythonPipelineOperator"
  "operator_class (hc_neuro_morphometric_atlas_pipeline_task c) = SpmPipelineOperator"
  "operator_class hc_extract_nifti_atlas_info_task = PythonPipelineOperator"
  by (simp_all add: hc_task_defs new_operator_def)

text \<open>The tasks and the links of the parameterised DAG, for any setting of the switches.\<close>

lemma tasks_pre_process_dicom_dag:
  "tasks (pre_process_dicom_dag w a) =
     [check_free_space_task a]
     @ (if copy_dicom_to_local a then [copy_dicom_to_local_task a] else [])
     @ [prepare_pipeline_task a]
     @ (if dicom_organizer a then [dicom_organizer_pipeline_task a ''prepare_pipeline''] else [])
     @ [extract_dicom_info_task
          (if dicom_organizer a then ''dicom_organizer_pipeline'' else ''prepare_pipeline''),
        dicom_to_nifti_pipeline_task a ''extract_dicom_info'',
        cleanup_local_dicom_task a,
        extract_nifti_info_task ''dicom_to_nifti_pipeline'',
        notify_success_task]
     @ (if mpm_maps a
        then [mpm_maps_pipeline_task a ''dicom_to_nifti_pipeline'',
              extract_nifti_mpm_info_task ''mpm_maps_pipeline'']
        else [])
     @ (if neuro_morphometric_atlas a
        then [neuro_morphometric_atlas_pipeline_task a
                (if mpm_maps a then ''mpm_maps_pipeline'' else ''dicom_to_nifti_pipeline''),
              extract_nifti_atlas_info_task]
        else [])"
  by (cases "copy_dicom_to_local a"; cases "dicom_organizer a"; cases "mpm_maps a";
      cases "neuro_morphometric_atlas a")
     (simp_all add: pre_process_dicom_dag_def Let_def dag_ops)

lemma links_pre_process_dicom_dag:
  "links (pre_process_dicom_dag w a) =
     (if copy_dicom_to_local a
      then [(''check_free_space'', ''copy_dicom_to_local''),
            (''copy_dicom_to_local'', ''prepare_pipeline'')]
      else [(''check_free_space'', ''prepare_pipeline'')])
     @ (if dicom_organizer a
        then [(''prepare_pipeline'', ''dicom_organizer_pipeline''),
              (''dicom_organizer_pipeline'', ''extract_dicom_info'')]
        else [(''prepare_pipeline'', ''extract_dicom_info'')])
     @ [(''extract_dicom_info'', ''dicom_to_nifti_pipeline''),
        (''dicom_to_nifti_pipeline'', ''cleanup_local_dicom''),
        (''dicom_to_nifti_pipeline'', ''extract_nifti_info''),
        (''extract_nifti_info'', ''notify_success'')]
     @ (if mpm_maps a
        then [(''dicom_to_nifti_pipeline'', ''mpm_maps_pipeline''),
              (''mpm_maps_pipeline'', ''extract_nifti_mpm_info''),
              (''extract_nifti_mpm_info'', ''notify_success'')]
        else [])
     @ (if neuro_morphometric_atlas a
        then [(if mpm_maps a then ''mpm_maps_pipeline'' else ''dicom_to_nifti_pipeline'',
               ''neuro_morphometric_atlas_pipeline''),
              (''neuro_morphometric_atlas_pipeline'', ''extract_nifti_atlas_info''),
              (''extract_nifti_atlas_info'', ''notify_success'')]
        else [])"
  by (cases "copy_dicom_to_local a"; cases "dicom_organizer a"; cases "mpm_maps a";
      cases "neuro_morphometric_atlas a")
     (simp_all add: pre_process_dicom_dag_def Let_def dag_ops task_id_simps)

lemma tasks_hc_dag:
  "tasks (hc_dag c) =
     [hc_check_free_space_task c, hc_copy_dicom_to_local_task c, hc_prepare_pipeline_task c,
      hc_extract_dicom_info_task, hc_dicom_to_nifti_pipeline_task c,
      hc_cleanup_local_dicom_task c, hc_extract_nifti_info_task,
      hc_mpm_maps_pipeline_task c, hc_extract_nifti_mpm_info_task,
      hc_neuro_morphometric_atlas_pipeline_task c, hc_extract_nifti_atlas_info_task]"
  by (simp add: hc_dag_def Let_def dag_ops)


lemma switches_call_with_config:
  "copy_dicom_to_local (call_with_config c ds mail runs)"
  "\<not> dicom_organizer (call_with_config c ds mail runs)"
  "mpm_maps (call_with_config c ds mail runs)"
  "neuro_morphometric_atlas (call_with_config c ds mail runs)"
  by (simp_all add: call_with_config_def default_call_def)

lemma upstream_of_before: "upstream_of d u t \<Longrightarrow> before d u t"
  by (simp add: upstream_of_def before_def)

lemma before_trans: "before d u v \<Longrightarrow> before d v t \<Longrightarrow> before d u t"
  unfolding before_def by (rule trancl_trans)

text \<open>Direct links of the parameterised DAG, and the two places where a task stands between.\<close>

lemma upstream_links:
  "copy_dicom_to_local a \<Longrightarrow> upstream_of (pre_process_dicom_dag w a) ''check_free_space'' ''copy_dicom_to_local''"
  "copy_dicom_to_local a \<Longrightarrow> upstream_of (pre_process_dicom_dag w a) ''copy_dicom_to_local'' ''prepare_pipeline''"
  "\<not> dicom_organizer a \<Longrightarrow> upstream_of (pre_process_dicom_dag w a) ''prepare_pipeline'' ''extract_dicom_info''"
  "dicom_organizer a \<Longrightarrow> upstream_of (pre_process_dicom_dag w a) ''prepare_pipeline'' ''dicom_organizer_pipeline''"
  "dicom_organizer a \<Longrightarrow> upstream_of (pre_process_dicom_dag w a) ''dicom_organizer_pipeline'' ''extract_dicom_info''"
  "upstream_of (pre_process_dicom_dag w a) ''extract_dicom_info'' ''dicom_to_nifti_pipeline''"
  "upstream_of (pre_process_dicom_dag w a) ''dicom_to_nifti_pipeline'' ''extract_nifti_info''"
  "upstream_of (pre_process_dicom_dag w a) ''extract_nifti_info'' ''notify_success''"
  "mpm_maps a \<Longrightarrow> upstream_of (pre_process_dicom_dag w a) ''dicom_to_nifti_pipeline'' ''mpm_maps_pipeline''"
  "mpm_maps a \<Longrightarrow> upstream_of (pre_process_dicom_dag w a) ''mpm_maps_pipeline'' ''extract_nifti_mpm_info''"
  "mpm_maps a \<Longrightarrow> upstream_of (pre_process_dicom_dag w a) ''extract_nifti_mpm_info'' ''notify_success''"
  "neuro_morphometric_atlas a \<Longrightarrow> mpm_maps a \<Longrightarrow>
     upstream_of (pre_process_dicom_dag w a) ''mpm_maps_pipeline'' ''neuro_morphometric_atlas_pipeline''"
  "neuro_morphometric_atlas a \<Longrightarrow> \<not> mpm_maps a \<Longrightarrow>
     upstream_of (pre_process_dicom_dag w a) ''dicom_to_nifti_pipeline'' ''neuro_morphometric_atlas_pipeline''"
  "neuro_morphometric_atlas a \<Longrightarrow>
     upstream_of (pre_process_dicom_dag w a) ''neuro_morphometric_atlas_pipeline'' ''extract_nifti_atlas_info''"
  "neuro_morphometric_atlas a \<Longrightarrow>
     upstream_of (pre_process_dicom_dag w a) ''extract_nifti_atlas_info'' ''notify_success''"
  by (simp_all add: upstream_of_def links_pre_process_dicom_dag)

lemma prepare_before_extract:
  "before (pre_process_dicom_dag w a) ''prepare_pipeline'' ''extract_dicom_info''"
proof (cases "dicom_organizer a")
  case True
  then show ?thesis
    by (blast intro: before_trans upstream_of_before upstream_links(4) upstream_links(5))
next
  case False
  then show ?thesis
    by (simp add: upstream_of_before upstream_links(3))
qed

lemma conversion_before_atlas:
  assumes "neuro_morphometric_atlas a"
  shows "before (pre_process_dicom_dag w a) ''dicom_to_nifti_pipeline''
           ''neuro_morphometric_atlas_pipeline''"
proof (cases "mpm_maps a")
  case True
  with assms show ?thesis
    by (blast intro: before_trans upstream_of_before upstream_links(9) upstream_links(12))
next
  case False
  with assms show ?thesis
    by (simp add: upstream_of_before upstream_links(13))
qed





text \<open>The SPM operators and their triggers.\<close>

lemma spm_operators_pre_process_dicom_dag:
  "spm_operators (pre_process_dicom_dag w a) =
     (if dicom_organizer a then [dicom_organizer_pipeline_task a ''prepare_pipeline''] else [])
     @ [dicom_to_nifti_pipeline_task a ''extract_dicom_info'']
     @ (if mpm_maps a then [mpm_maps_pipeline_task a ''dicom_to_nifti_pipeline''] else [])
     @ (if neuro_morphometric_atlas a
        then [neuro_morphometric_atlas_pipeline_task a
                (if mpm_maps a then ''mpm_maps_pipeline'' else ''dicom_to_nifti_pipeline'')]
        else [])"
  by (simp add: spm_operators_def tasks_pre_process_dicom_dag operator_class_simps)

lemma spm_operators_hc_dag:
  "spm_operators (hc_dag c) =
     [hc_dicom_to_nifti_pipeline_task c, hc_mpm_maps_pipeline_task c,
      hc_neuro_morphometric_atlas_pipeline_task c]"
  by (simp add: spm_operators_def tasks_hc_dag hc_operator_class_simps)

lemma spm_triggers:
  "on_skip_trigger_dag_id (dicom_organizer_pipeline_task a u) = Some ''mri_notify_skipped_processing''"
  "on_failure_trigger_dag_id (dicom_organizer_pipeline_task a u) = Some ''mri_notify_failed_processing''"
  "on_skip_trigger_dag_id (dicom_to_nifti_pipeline_task a u) = Some ''mri_notify_skipped_processing''"
  "on_failure_trigger_dag_id (dicom_to_nifti_pipeline_task a u) = Some ''mri_notify_failed_processing''"
  "on_skip_trigger_dag_id (mpm_maps_pipeline_task a u) = Some ''mri_notify_skipped_processing''"
  "on_failure_trigger_dag_id (mpm_maps_pipeline_task a u) = Some ''mri_notify_failed_processing''"
  "on_skip_trigger_dag_id (neuro_morphometric_atlas_pipeline_task a u) = Some ''mri_notify_skipped_processing''"
  "on_failure_trigger_dag_id (neuro_morphometric_atlas_pipeline_task a u) = Some ''mri_notify_failed_processing''"
  by (simp_all add: task_defs new_operator_def)

lemma hc_spm_triggers:
  "on_skip_trigger_dag_id (hc_dicom_to_nifti_pipeline_task c) = None"
  "on_failure_trigger_dag_id (hc_dicom_to_nifti_pipeline_task c) = None"
  "on_skip_trigger_dag_id (hc_mpm_maps_pipeline_task c) = None"
  "on_failure_trigger_dag_id (hc_mpm_maps_pipeline_task c) = None"
  "on_skip_trigger_dag_id (hc_neuro_morphometric_atlas_pipeline_task c) = None"
  "on_failure_trigger_dag_id (hc_neuro_morphometric_atlas_pipeline_task c) = None"
  by (simp_all add: hc_task_defs new_operator_def)

text \<open>What the switches leave untouched.\<close>

lemma forget_parent_simps:
  "forget_parent (extract_dicom_info_task u) =
     (new_operator PythonPipelineOperator ''extract_dicom_info'')
       \<lparr>python_callable := Some extract_dicom_info_fn_ref,
        pool := Some ''io_intensive'',
        priority_weight := Some 15,
        execution_timeout := Some (hours 6)\<rparr>"
  "forget_parent (neuro_morphometric_atlas_pipeline_task a u) =
     (new_operator SpmPipelineOperator ''neuro_morphometric_atlas_pipeline'')
       \<lparr>spm_function := Some (neuro_morphometric_atlas_spm_function a),
        spm_arguments_callable := Some neuro_morphometric_atlas_arguments_fn_ref,
        matlab_paths := Some [PyStr (misc_library_path a),
                              neuro_morphometric_atlas_pipeline_path a],
        output_folder_base := Some (neuro_morphometric_atlas_local_folder a),
        pool := Some ''image_preprocessing'',
        priority_weight := Some 40,
        execution_timeout := Some (hours 24),
        on_skip_trigger_dag_id := Some ''mri_notify_skipped_processing'',
        on_failure_trigger_dag_id := Some ''mri_notify_failed_processing''\<rparr>"
  by (simp_all add: forget_parent_def task_defs new_operator_def)

lemma switch_free:
  "check_free_space_task (all_switches_on a) = check_free_space_task a"
  "copy_dicom_to_local_task (all_switches_on a) = copy_dicom_to_local_task a"
  "prepare_pipeline_task (all_switches_on a) = prepare_pipeline_task a"
  "dicom_organizer_pipeline_task (all_switches_on a) u = dicom_organizer_pipeline_task a u"
  "dicom_to_nifti_pipeline_task (all_switches_on a) u = dicom_to_nifti_pipeline_task a u"
  "cleanup_local_dicom_task (all_switches_on a) = cleanup_local_dicom_task a"
  "mpm_maps_pipeline_task (all_switches_on a) u = mpm_maps_pipeline_task a u"
  "neuro_morphometric_atlas_pipeline_task (all_switches_on a) u
     = neuro_morphometric_atlas_pipeline_task a u"
  by (simp_all add: all_switches_on_def task_defs)

lemma tasks_all_switches_on:
  "tasks (pre_process_dicom_dag w (all_switches_on a)) =
     [check_free_space_task a, copy_dicom_to_local_task a, prepare_pipeline_task a,
      dicom_organizer_pipeline_task a ''prepare_pipeline'',
      extract_dicom_info_task ''dicom_organizer_pipeline'',
      dicom_to_nifti_pipeline_task a ''extract_dicom_info'',
      cleanup_local_dicom_task a,
      extract_nifti_info_task ''dicom_to_nifti_pipeline'',
      notify_success_task,
      mpm_maps_pipeline_task a ''dicom_to_nifti_pipeline'',
      extract_nifti_mpm_info_task ''mpm_maps_pipeline'',
      neuro_morphometric_atlas_pipeline_task a ''mpm_maps_pipeline'',
      extract_nifti_atlas_info_task]"
  by (simp add: tasks_pre_process_dicom_dag switch_free) (simp add: all_switches_on_def)

section \<open>Name lookups in the two modules\<close>

lemma load_name_Nil: "load_name [] n = Inl (NameError n)"
  by (simp add: load_name_def)

lemma load_name_Cons:
  "load_name (ns # scopes) n =
     (case map_of ns n of Some v \<Rightarrow> Inr v | None \<Rightarrow> load_name scopes n)"
  by (simp add: load_name_def map_add_def split: option.splits)

lemma map_of_objects: "map_of (objects ns) n = (if n \<in> set ns then Some (PyObj n) else None)"
  by (induction ns) (auto simp: objects_def)

lemma builtins_miss:
  "map_of builtins ''protocols_file'' = None"
  by (simp add: builtins_def map_of_objects)

lemma module_attributes_miss:
  "map_of module_attributes ''protocols_file'' = None"
  "map_of module_attributes ''os'' = None"
  by (simp_all add: module_attributes_def map_of_objects)

lemma module_globals_lookup:
  "map_of module_globals ''protocols_file'' = None"
  "map_of module_globals ''os'' = Some (PyObj ''os'')"
  by (simp_all add: module_globals_def map_add_def module_attributes_miss map_of_objects)

lemma enclosing_lookup:
  "map_of (enclosing a) ''protocols_file'' = None"
  "map_of (enclosing a) ''os'' = None"
  "map_of (enclosing a) ''parent_data_folder'' = None"
  "map_of (enclosing a) ''session_id'' = None"
  "map_of (enclosing a) ''dicom_organizer_local_folder'' = Some (dicom_organizer_local_folder a)"
  "map_of (enclosing a) ''dicom_organizer_data_structure'' = Some (PyStr (dicom_organizer_data_structure a))"
  "map_of (enclosing a) ''dicom_to_nifti_local_folder'' = Some (dicom_to_nifti_local_folder a)"
  "map_of (enclosing a) ''dicom_to_nifti_server_folder'' = Some (dicom_to_nifti_server_folder a)"
  "map_of (enclosing a) ''neuro_morphometric_atlas_local_folder'' = Some (neuro_morphometric_atlas_local_folder a)"
  "map_of (enclosing a) ''neuro_morphometric_atlas_server_folder'' = Some (neuro_morphometric_atlas_server_folder a)"
  "map_of (enclosing a) ''mpm_maps_local_folder'' = Some (mpm_maps_local_folder a)"
  by (simp_all add: enclosing_def map_add_def map_of_objects)

lemma hc_module_globals_lookup:
  "map_of (hc_module_globals c) ''os'' = Some (PyObj ''os'')"
  "map_of (hc_module_globals c) ''protocols_file'' = Some (PyStr (PROTOCOLS_FILE c))"
  "map_of (hc_module_globals c) ''dicom_to_nifti_local_folder'' = Some (PyStr (NIFTI_LOCAL_FOLDER c))"
  "map_of (hc_module_globals c) ''dicom_to_nifti_server_folder'' = Some (PyStr (NIFTI_SERVER_FOLDER c))"
  "map_of (hc_module_globals c) ''neuro_morphometric_atlas_local_folder'' = Some (PyStr (NEURO_MORPHOMETRIC_ATLAS_LOCAL_FOLDER c))"
  "map_of (hc_module_globals c) ''neuro_morphometric_atlas_server_folder'' = Some (PyStr (NEURO_MORPHOMETRIC_ATLAS_SERVER_FOLDER c))"
  "map_of (hc_module_globals c) ''mpm_maps_local_folder'' = Some (PyStr (MPM_MAPS_LOCAL_FOLDER c))"
  "map_of (hc_module_globals c) ''mpm_maps_server_folder'' = Some (PyStr (MPM_MAPS_SERVER_FOLDER c))"
  by (simp_all add: hc_module_globals_def map_add_def map_of_objects module_attributes_def)

lemmas lookups = load_name_Nil load_name_Cons builtins_miss module_globals_lookup enclosing_lookup
  hc_module_globals_lookup

section \<open>The claims\<close>



text \<open>
  Claim C2. In the DAG built with copying enabled, \<open>check_free_space\<close> is upstream of
  \<open>copy_dicom_to_local\<close>, which is upstream of \<open>prepare_pipeline\<close>, which is upstream of
  \<open>extract_dicom_info\<close>, which is upstream of \<open>dicom_to_nifti_pipeline\<close>, which is
  upstream of \<open>extract_nifti_info\<close>, which is upstream of \<open>notify_success\<close>. Every
  step of this chain is a direct link, except that \<open>prepare_pipeline\<close> reaches
  \<open>extract_dicom_info\<close> through \<open>dicom_organizer_pipeline\<close> when the organizer is
  switched on (a direct link when it is off). The MPM pipeline, when enabled, is linked
  directly below the conversion step; the atlas pipeline, when enabled, comes after the
  conversion step: directly below it when the MPM pipeline is off, below the MPM
  pipeline otherwise.
\<close>

theorem C2_declared_order:
  assumes "copy_dicom_to_local a"
  shows "upstream_of (pre_process_dicom_dag w a) ''check_free_space'' ''copy_dicom_to_local''
    \<and> upstream_of (pre_process_dicom_dag w a) ''copy_dicom_to_local'' ''prepare_pipeline''
    \<and> before (pre_process_dicom_dag w a) ''prepare_pipeline'' ''extract_dicom_info''
    \<and> (\<not> dicom_organizer a \<longrightarrow>
         upstream_of (pre_process_dicom_dag w a) ''prepare_pipeline'' ''extract_dicom_info'')
    \<and> upstream_of (pre_process_dicom_dag w a) ''extract_dicom_info'' ''dicom_to_nifti_pipeline''
    \<and> upstream_of (pre_process_dicom_dag w a) ''dicom_to_nifti_pipeline'' ''extract_nifti_info''
    \<and> upstream_of (pre_process_dicom_dag w a) ''extract_nifti_info'' ''notify_success''
    \<and> (mpm_maps a \<longrightarrow>
         upstream_of (pre_process_dicom_dag w a) ''dicom_to_nifti_pipeline'' ''mpm_maps_pipeline'')
    \<and> (neuro_morphometric_atlas a \<longrightarrow>
         before (pre_process_dicom_dag w a) ''dicom_to_nifti_pipeline''
           ''neuro_morphometric_atlas_pipeline'')
    \<and> (neuro_morphometric_atlas a \<and> \<not> mpm_maps a \<longrightarrow>
         upstream_of (pre_process_dicom_dag w a) ''dicom_to_nifti_pipeline''
           ''neuro_morphometric_atlas_pipeline'')"
  using assms
  by (simp add: upstream_links prepare_before_extract conversion_before_atlas)

text \<open>The order of claim C2 at the sample call, where all hypotheses hold.\<close>

theorem C2_declared_order_witness:
  "copy_dicom_to_local sample_args
   \<and> upstream_of (pre_process_dicom_dag sample_world sample_args) ''check_free_space'' ''copy_dicom_to_local''
   \<and> upstream_of (pre_process_dicom_dag sample_world sample_args) ''copy_dicom_to_local'' ''prepare_pipeline''
   \<and> upstream_of (pre_process_dicom_dag sample_world sample_args) ''prepare_pipeline'' ''extract_dicom_info''
   \<and> upstream_of (pre_process_dicom_dag sample_world sample_args) ''extract_dicom_info'' ''dicom_to_nifti_pipeline''
   \<and> upstream_of (pre_process_dicom_dag sample_world sample_args) ''dicom_to_nifti_pipeline'' ''extract_nifti_info''
   \<and> upstream_of (pre_process_dicom_dag sample_world sample_args) ''extract_nifti_info'' ''notify_success''
   \<and> upstream_of (pre_process_dicom_dag sample_world sample_args) ''dicom_to_nifti_pipeline'' ''mpm_maps_pipeline''
   \<and> before (pre_process_dicom_dag sample_world sample_args) ''dicom_to_nifti_pipeline''
        ''neuro_morphometric_atlas_pipeline''"
proof -
  have switches: "copy_dicom_to_local sample_args" "\<not> dicom_organizer sample_args"
      "mpm_maps sample_args" "neuro_morphometric_atlas sample_args"
    by (simp_all add: sample_args_def switches_call_with_config)
  from C2_declared_order [where w = sample_world, OF switches(1)] switches show ?thesis by simp
qed

text \<open>
  Claim C3 says that every \<open>SpmPipelineOperator\<close> of the hard-coded DAG carries the
  on-failure and on-skip triggers of the parameterised DAG. None of the three does: at
  the sample configuration both triggers are absent on each of them.
\<close>

theorem C3_counterexample:
  "map on_failure_trigger_dag_id (spm_operators (hc_dag sample_config)) = [None, None, None]
   \<and> map on_skip_trigger_dag_id (spm_operators (hc_dag sample_config)) = [None, None, None]"
  by (simp add: spm_operators_hc_dag hc_spm_triggers)

text \<open>
  Claim C3, amended. Every \<open>SpmPipelineOperator\<close> created by \<open>pre_process_dicom_dag\<close>
  (there is at least one, whatever the switches) is declared with
  \<open>on_skip_trigger_dag_id='mri_notify_skipped_processing'\<close> and
  \<open>on_failure_trigger_dag_id='mri_notify_failed_processing'\<close>; the three
  \<open>SpmPipelineOperator\<close>s of the hard-coded DAG declare neither trigger.
\<close>

theorem C3_failure_triggers:
  "(\<forall>t \<in> set (spm_operators (pre_process_dicom_dag w a)).
      on_skip_trigger_dag_id t = Some ''mri_notify_skipped_processing''
      \<and> on_failure_trigger_dag_id t = Some ''mri_notify_failed_processing'')
   \<and> spm_operators (pre_process_dicom_dag w a) \<noteq> []
   \<and> (\<forall>t \<in> set (spm_operators (hc_dag c)).
        on_skip_trigger_dag_id t = None \<and> on_failure_trigger_dag_id t = None)
   \<and> length (spm_operators (hc_dag c)) = 3"
  by (auto simp: spm_operators_pre_process_dicom_dag spm_operators_hc_dag spm_triggers
      hc_spm_triggers)

text \<open>Claim C3 at the MPM operators of the sample call and of the sample configuration.\<close>

theorem C3_failure_triggers_witness:
  "mpm_maps_pipeline_task sample_args ''dicom_to_nifti_pipeline''
     \<in> set (spm_operators (pre_process_dicom_dag sample_world sample_args))
   \<and> on_failure_trigger_dag_id (mpm_maps_pipeline_task sample_args ''dicom_to_nifti_pipeline'')
       = Some ''mri_notify_failed_processing''
   \<and> hc_mpm_maps_pipeline_task sample_config \<in> set (spm_operators (hc_dag sample_config))
   \<and> on_failure_trigger_dag_id (hc_mpm_maps_pipeline_task sample_config) = None"
proof -
  have member: "mpm_maps_pipeline_task sample_args ''dicom_to_nifti_pipeline''
      \<in> set (spm_operators (pre_process_dicom_dag sample_world sample_args))"
    by (simp add: spm_operators_pre_process_dicom_dag sample_args_def switches_call_with_config)
  have hc_member: "hc_mpm_maps_pipeline_task sample_config
      \<in> set (spm_operators (hc_dag sample_config))"
    by (simp add: spm_operators_hc_dag)
  from C3_failure_triggers [where w = sample_world and a = sample_args and c = sample_config]
    member hc_member show ?thesis
    by blast
qed

text \<open>
  Claim C4. In both DAG definitions the task \<open>check_free_space\<close> is the free-space
  sensor declared with a retry delay of one hour (3600 seconds), 168 retries, the
  configured local DICOM folder as the path it watches, the configured minimum free space
  as its threshold, and the pool \<open>remote_file_copy\<close>.
\<close>

theorem C4_check_free_space_configuration:
  "find_task ''check_free_space'' (pre_process_dicom_dag w a) = Some (check_free_space_task a)
   \<and> retry_delay (check_free_space_task a) = Some 3600
   \<and> retries (check_free_space_task a) = Some 168
   \<and> path (check_free_space_task a) = Some (dicom_local_folder a)
   \<and> free_disk_threshold (check_free_space_task a) = Some (min_free_space_local_folder a)
   \<and> pool (check_free_space_task a) = Some ''remote_file_copy''
   \<and> find_task ''check_free_space'' (hc_dag c) = Some (hc_check_free_space_task c)
   \<and> retry_delay (hc_check_free_space_task c) = Some 3600
   \<and> retries (hc_check_free_space_task c) = Some 168
   \<and> path (hc_check_free_space_task c) = Some (DICOM_LOCAL_FOLDER c)
   \<and> free_disk_threshold (hc_check_free_space_task c) = Some (MIN_FREE_SPACE_LOCAL_FOLDER c)
   \<and> pool (hc_check_free_space_task c) = Some ''remote_file_copy''"
proof -
  have found: "find_task ''check_free_space'' (pre_process_dicom_dag w a)
      = Some (check_free_space_task a)"
    by (simp add: find_task_def tasks_pre_process_dicom_dag task_id_simps)
  have hc_found: "find_task ''check_free_space'' (hc_dag c) = Some (hc_check_free_space_task c)"
    by (simp add: find_task_def tasks_hc_dag hc_task_id_simps)
  have fields: "retry_delay (check_free_space_task a) = Some 3600
      \<and> retries (check_free_space_task a) = Some 168
      \<and> path (check_free_space_task a) = Some (dicom_local_folder a)
      \<and> free_disk_threshold (check_free_space_task a) = Some (min_free_space_local_folder a)
      \<and> pool (check_free_space_task a) = Some ''remote_file_copy''"
    by (simp add: check_free_space_task_def new_operator_def hours_def)
  have hc_fields: "retry_delay (hc_check_free_space_task c) = Some 3600
      \<and> retries (hc_check_free_space_task c) = Some 168
      \<and> path (hc_check_free_space_task c) = Some (DICOM_LOCAL_FOLDER c)
      \<and> free_disk_threshold (hc_check_free_space_task c) = Some (MIN_FREE_SPACE_LOCAL_FOLDER c)
      \<and> pool (hc_check_free_space_task c) = Some ''remote_file_copy''"
    by (simp add: hc_check_free_space_task_def new_operator_def hours_def)
  from found hc_found fields hc_fields show ?thesis by simp
qed

text \<open>
  Claim C5 names the library functions the extraction callables call \<open>dicom_to_db\<close>
  and \<open>nifti_to_db\<close>. The callables call no function of these names: at the sample
  input \<open>extract_dicom_info_fn\<close> calls \<open>info\<close>, \<open>visit_info\<close> and \<open>dicom2db\<close>, and
  \<open>extract_nifti_info_fn\<close> calls \<open>info\<close> and \<open>nifti2db\<close>.
\<close>

theorem C5_counterexample:
  "map call_name (fst (extract_dicom_info_fn sample_world ''/in/s1'' ''s1''))
     = [''info'', ''visit_info'', ''dicom2db'']
   \<and> ''dicom_to_db'' \<notin> set (map call_name (fst (extract_dicom_info_fn sample_world ''/in/s1'' ''s1'')))
   \<and> map call_name (fst (extract_nifti_info_fn ''/in/s1'' ''s1'' (PyStr ''PR00001'')
        (PyStr ''2016-05-17''))) = [''info'', ''nifti2db'']
   \<and> ''nifti_to_db'' \<notin> set (map call_name (fst (extract_nifti_info_fn ''/in/s1'' ''s1''
        (PyStr ''PR00001'') (PyStr ''2016-05-17''))))"
  by (simp add: extract_dicom_info_fn_def extract_nifti_info_fn_def Let_def sample_world_def
      split: prod.splits)

text \<open>
  Claim C5, amended. In both modules, \<open>extract_dicom_info_fn\<close> logs one line with
  \<open>logging.info\<close>, calls \<open>dicom_import.visit_info(folder)\<close>, then
  \<open>dicom_import.dicom2db(folder)\<close> on the same folder, and returns a dictionary with
  exactly the keys \<open>participant_id\<close> and \<open>scan_date\<close>, holding the pair returned by
  \<open>visit_info\<close>; \<open>extract_nifti_info_fn\<close> logs one line, calls
  \<open>nifti_import.nifti2db(folder, participant_id, scan_date)\<close> and returns \<open>"ok"\<close>.
  They make no other call.
\<close>

theorem C5_extraction_calls:
  "fst (extract_dicom_info_fn w folder session_id) =
     [Call ''logging'' ''info'' [PyStr (''folder '' @ folder @ '', session_id '' @ session_id)],
      Call ''dicom_import'' ''visit_info'' [PyStr folder],
      Call ''dicom_import'' ''dicom2db'' [PyStr folder]]
   \<and> snd (extract_dicom_info_fn w folder session_id) =
       [(''participant_id'', fst (visit_info w folder)), (''scan_date'', snd (visit_info w folder))]
   \<and> map fst (snd (extract_dicom_info_fn w folder session_id)) = [''participant_id'', ''scan_date'']
   \<and> hc_extract_dicom_info_fn w folder session_id = extract_dicom_info_fn w folder session_id
   \<and> fst (extract_nifti_info_fn folder session_id participant_id scan_date) =
       [Call ''logging'' ''info''
          [PyStr (''NIFTI extract: session_id='' @ session_id @ '', input_folder='' @ folder)],
        Call ''nifti_import'' ''nifti2db'' [PyStr folder, participant_id, scan_date]]
   \<and> snd (extract_nifti_info_fn folder session_id participant_id scan_date) = ''ok''
   \<and> hc_extract_nifti_info_fn folder session_id participant_id scan_date
       = extract_nifti_info_fn folder session_id participant_id scan_date"
  by (simp add: extract_dicom_info_fn_def hc_extract_dicom_info_fn_def extract_nifti_info_fn_def
      hc_extract_nifti_info_fn_def Let_def split: prod.splits)

text \<open>
  Claim C6. In the hard-coded module, \<open>mpm_maps_arguments_fn\<close> and
  \<open>neuro_morphometric_atlas_arguments_fn\<close> return the six-element lists of the claim
  for every folder and session id. The function \<open>mpm_maps_arguments_fn\<close> nested in
  \<open>pre_process_dicom_dag\<close> does not: at the sample call it raises \<open>NameError\<close> for
  \<open>protocols_file\<close> instead of returning a list.
\<close>

theorem C6_argument_lists:
  "hc_mpm_maps_arguments_fn w c folder session_id participant_id scan_date
     = Inr [PyStr (abspath w (folder @ ''/..'')), PyStr session_id,
            PyStr (MPM_MAPS_LOCAL_FOLDER c), PyStr (PROTOCOLS_FILE c),
            PyStr ''Preproc_mpm_maps_pipeline_config.txt'', PyStr (MPM_MAPS_SERVER_FOLDER c)]
   \<and> hc_neuro_morphometric_atlas_arguments_fn w c folder session_id participant_id scan_date
     = Inr [PyStr session_id, PyStr (abspath w (folder @ ''/..'')),
            PyStr (NEURO_MORPHOMETRIC_ATLAS_LOCAL_FOLDER c),
            PyStr (NEURO_MORPHOMETRIC_ATLAS_SERVER_FOLDER c), PyStr (PROTOCOLS_FILE c),
            PyStr ''csv'']
   \<and> mpm_maps_arguments_fn sample_world sample_args ''/in/s1'' ''s1'' (PyStr ''PR00001'')
        (PyStr ''2016-05-17'') None = Inl (NameError ''protocols_file'')"
proof -
  have mpm: "hc_mpm_maps_arguments_fn w c folder session_id participant_id scan_date
     = Inr [PyStr (abspath w (folder @ ''/..'')), PyStr session_id,
            PyStr (MPM_MAPS_LOCAL_FOLDER c), PyStr (PROTOCOLS_FILE c),
            PyStr ''Preproc_mpm_maps_pipeline_config.txt'', PyStr (MPM_MAPS_SERVER_FOLDER c)]"
    by (simp add: hc_mpm_maps_arguments_fn_def parent_data_folder_of_def hc_scopes_def lookups)
  have atlas: "hc_neuro_morphometric_atlas_arguments_fn w c folder session_id participant_id scan_date
     = Inr [PyStr session_id, PyStr (abspath w (folder @ ''/..'')),
            PyStr (NEURO_MORPHOMETRIC_ATLAS_LOCAL_FOLDER c),
            PyStr (NEURO_MORPHOMETRIC_ATLAS_SERVER_FOLDER c), PyStr (PROTOCOLS_FILE c),
            PyStr ''csv'']"
    by (simp add: hc_neuro_morphometric_atlas_arguments_fn_def parent_data_folder_of_def
        hc_scopes_def lookups)
  have nested: "mpm_maps_arguments_fn sample_world sample_args ''/in/s1'' ''s1'' (PyStr ''PR00001'')
        (PyStr ''2016-05-17'') None = Inl (NameError ''protocols_file'')"
    by (simp add: mpm_maps_arguments_fn_def parent_data_folder_of_def nested_scopes_def lookups)
  from mpm atlas nested show ?thesis by simp
qed

text \<open>
  Claim C7 says that every operation is declared unconditionally, with no branching
  authored in the repository. The declarations branch on the switches: at the sample
  call the task \<open>copy_dicom_to_local\<close> is declared, and with the switch off it is not;
  \<open>dicom_organizer_pipeline\<close> is not declared, and with its switch on it is.
\<close>

theorem C7_counterexample:
  "find_task ''copy_dicom_to_local''
      (pre_process_dicom_dag sample_world (sample_args\<lparr>copy_dicom_to_local := False\<rparr>)) = None
   \<and> find_task ''copy_dicom_to_local'' (pre_process_dicom_dag sample_world sample_args)
       = Some (copy_dicom_to_local_task sample_args)
   \<and> find_task ''dicom_organizer_pipeline'' (pre_process_dicom_dag sample_world sample_args) = None
   \<and> find_task ''dicom_organizer_pipeline''
        (pre_process_dicom_dag sample_world (sample_args\<lparr>dicom_organizer := True\<rparr>))
       = Some (dicom_organizer_pipeline_task sample_args ''prepare_pipeline'')"
proof -
  have switches: "copy_dicom_to_local sample_args" "\<not> dicom_organizer sample_args"
    by (simp_all add: sample_args_def switches_call_with_config)
  have organizer: "dicom_organizer_pipeline_task (sample_args\<lparr>dicom_organizer := True\<rparr>) u
      = dicom_organizer_pipeline_task sample_args u" for u
    by (simp add: dicom_organizer_pipeline_task_def)
  show ?thesis
    by (simp add: find_task_def tasks_pre_process_dicom_dag task_id_simps switches organizer)
qed

text \<open>
  Claim C7, amended. Each task the repository declares is an operator instance with
  static keyword arguments, but the declarations are conditional: \<open>pre_process_dicom_dag\<close>
  declares \<open>copy_dicom_to_local\<close>, \<open>dicom_organizer_pipeline\<close>, the two MPM tasks and
  the two atlas tasks only when the matching switch is on; the switches change no
  keyword argument of a declared task other than the parent task it names (each task,
  its parent forgotten, is a task of the DAG with all switches on, its parent forgotten);
  and \<open>copy_to_local_step\<close> always declares the same operator and links it below the
  upstream task only when the upstream handle carries one.
\<close>

theorem C7_static_arguments:
  "task_ids (pre_process_dicom_dag w a) =
     [''check_free_space'']
     @ (if copy_dicom_to_local a then [''copy_dicom_to_local''] else [])
     @ [''prepare_pipeline'']
     @ (if dicom_organizer a then [''dicom_organizer_pipeline''] else [])
     @ [''extract_dicom_info'', ''dicom_to_nifti_pipeline'', ''cleanup_local_dicom'',
        ''extract_nifti_info'', ''notify_success'']
     @ (if mpm_maps a then [''mpm_maps_pipeline'', ''extract_nifti_mpm_info''] else [])
     @ (if neuro_morphometric_atlas a
        then [''neuro_morphometric_atlas_pipeline'', ''extract_nifti_atlas_info''] else [])
   \<and> (\<forall>t \<in> set (tasks (pre_process_dicom_dag w a)).
        forget_parent t
          \<in> forget_parent ` set (tasks (pre_process_dicom_dag w (all_switches_on a))))
   \<and> tasks (fst (copy_to_local_step d upstream_step min_free output_folder cfg))
       = tasks d @ [copy_to_local_task upstream_step min_free output_folder cfg]
   \<and> links (fst (copy_to_local_step d upstream_step min_free output_folder cfg))
       = links d @ (case task upstream_step of
                      Some upstream_task \<Rightarrow> [(task_id upstream_task, ''copy_to_local'')]
                    | None \<Rightarrow> [])"
proof -
  have ids: "task_ids (pre_process_dicom_dag w a) =
     [''check_free_space'']
     @ (if copy_dicom_to_local a then [''copy_dicom_to_local''] else [])
     @ [''prepare_pipeline'']
     @ (if dicom_organizer a then [''dicom_organizer_pipeline''] else [])
     @ [''extract_dicom_info'', ''dicom_to_nifti_pipeline'', ''cleanup_local_dicom'',
        ''extract_nifti_info'', ''notify_success'']
     @ (if mpm_maps a then [''mpm_maps_pipeline'', ''extract_nifti_mpm_info''] else [])
     @ (if neuro_morphometric_atlas a
        then [''neuro_morphometric_atlas_pipeline'', ''extract_nifti_atlas_info''] else [])"
    by (simp add: task_ids_def tasks_pre_process_dicom_dag task_id_simps)
  have static: "\<forall>t \<in> set (tasks (pre_process_dicom_dag w a)).
        forget_parent t
          \<in> forget_parent ` set (tasks (pre_process_dicom_dag w (all_switches_on a)))"
    unfolding tasks_all_switches_on
    by (auto simp: tasks_pre_process_dicom_dag forget_parent_simps)
  have step: "tasks (fst (copy_to_local_step d upstream_step min_free output_folder cfg))
       = tasks d @ [copy_to_local_task upstream_step min_free output_folder cfg]
     \<and> links (fst (copy_to_local_step d upstream_step min_free output_folder cfg))
       = links d @ (case task upstream_step of
                      Some upstream_task \<Rightarrow> [(task_id upstream_task, ''copy_to_local'')]
                    | None \<Rightarrow> [])"
    by (simp add: copy_to_local_step_def Let_def copy_to_local_task_def new_operator_def
        dag_ops split: option.splits)
  from ids static step show ?thesis by simp
qed

text \<open>Claim C7 at the task \<open>extract_dicom_info\<close> of the sample call.\<close>

theorem C7_static_arguments_witness:
  "extract_dicom_info_task ''prepare_pipeline''
     \<in> set (tasks (pre_process_dicom_dag sample_world sample_args))
   \<and> forget_parent (extract_dicom_info_task ''prepare_pipeline'')
       \<in> forget_parent ` set (tasks (pre_process_dicom_dag sample_world (all_switches_on sample_args)))"
proof -
  have member: "extract_dicom_info_task ''prepare_pipeline''
      \<in> set (tasks (pre_process_dicom_dag sample_world sample_args))"
    by (simp add: tasks_pre_process_dicom_dag sample_args_def switches_call_with_config)
  from C7_static_arguments [where w = sample_world and a = sample_args] member show ?thesis
    by blast
qed

text \<open>
  Claim C8. In the DAG built by \<open>pre_process_dicom_dag\<close>, \<open>notify_success\<close> is
  directly downstream of \<open>extract_nifti_info\<close>, of \<open>extract_nifti_mpm_info\<close> when
  the MPM maps are enabled, and of \<open>extract_nifti_atlas_info\<close> when the atlas is
  enabled; and every extraction task of the DAG (every \<open>PythonPipelineOperator\<close>,
  \<open>extract_dicom_info\<close> included) is upstream of \<open>notify_success\<close>, so that
  \<open>notify_success\<close> cannot start before any of them has completed.
\<close>

theorem C8_notify_success_last:
  "upstream_of (pre_process_dicom_dag w a) ''extract_nifti_info'' ''notify_success''
   \<and> (mpm_maps a \<longrightarrow>
        upstream_of (pre_process_dicom_dag w a) ''extract_nifti_mpm_info'' ''notify_success'')
   \<and> (neuro_morphometric_atlas a \<longrightarrow>
        upstream_of (pre_process_dicom_dag w a) ''extract_nifti_atlas_info'' ''notify_success'')
   \<and> (\<forall>t \<in> set (tasks (pre_process_dicom_dag w a)).
        operator_class t = PythonPipelineOperator \<longrightarrow>
          before (pre_process_dicom_dag w a) (task_id t) ''notify_success'')"
proof -
  let ?d = "pre_process_dicom_dag w a"
  have nifti: "before ?d ''extract_nifti_info'' ''notify_success''"
    by (simp add: upstream_of_before upstream_links)
  have conversion: "before ?d ''dicom_to_nifti_pipeline'' ''notify_success''"
    by (rule before_trans [OF upstream_of_before [OF upstream_links(7)] nifti])
  have dicom: "before ?d ''extract_dicom_info'' ''notify_success''"
    by (rule before_trans [OF upstream_of_before [OF upstream_links(6)] conversion])
  have mpm: "mpm_maps a \<Longrightarrow> before ?d ''extract_nifti_mpm_info'' ''notify_success''"
    by (simp add: upstream_of_before upstream_links)
  have atlas: "neuro_morphometric_atlas a \<Longrightarrow>
      before ?d ''extract_nifti_atlas_info'' ''notify_success''"
    by (simp add: upstream_of_before upstream_links)
  have every: "\<forall>t \<in> set (tasks ?d). operator_class t = PythonPipelineOperator \<longrightarrow>
      before ?d (task_id t) ''notify_success''"
    using nifti dicom mpm atlas
    by (auto simp: tasks_pre_process_dicom_dag operator_class_simps task_id_simps
        split: if_splits)
  from every show ?thesis
    by (simp add: upstream_links)
qed

text \<open>Claim C8 at the sample call, where both optional pipelines are enabled.\<close>

theorem C8_notify_success_last_witness:
  "mpm_maps sample_args \<and> neuro_morphometric_atlas sample_args
   \<and> extract_nifti_atlas_info_task \<in> set (tasks (pre_process_dicom_dag sample_world sample_args))
   \<and> operator_class extract_nifti_atlas_info_task = PythonPipelineOperator
   \<and> upstream_of (pre_process_dicom_dag sample_world sample_args) ''extract_nifti_mpm_info'' ''notify_success''
   \<and> upstream_of (pre_process_dicom_dag sample_world sample_args) ''extract_nifti_atlas_info'' ''notify_success''
   \<and> before (pre_process_dicom_dag sample_world sample_args) ''extract_nifti_atlas_info'' ''notify_success''"
proof -
  have switches: "mpm_maps sample_args" "neuro_morphometric_atlas sample_args"
    by (simp_all add: sample_args_def switches_call_with_config)
  have member: "extract_nifti_atlas_info_task \<in> set (tasks (pre_process_dicom_dag sample_world sample_args))"
    by (simp add: tasks_pre_process_dicom_dag switches)
  have python: "operator_class extract_nifti_atlas_info_task = PythonPipelineOperator"
    by (simp add: operator_class_simps)
  from C8_notify_success_last [where w = sample_world and a = sample_args]
    switches member python show ?thesis
    by (auto simp: task_id_simps)
qed

text \<open>
  Claim C9. In \<open>mri_pipelines/pre_process_dicom.py\<close> the name \<open>protocols_file\<close> is
  bound in no scope the four SPM argument builders can see (their own variables, the
  enclosing function, the module, the builtins), and each of the four raises
  \<open>NameError\<close> for it, whatever the call of \<open>pre_process_dicom_dag\<close> and whatever the
  folder, session id and other arguments.
\<close>

theorem C9_protocols_file_unbound:
  "dicom_organizer_arguments_fn w a folder session_id = Inl (NameError ''protocols_file'')
   \<and> dicom_to_nifti_arguments_fn w a folder session_id participant_id scan_date
       = Inl (NameError ''protocols_file'')
   \<and> neuro_morphometric_atlas_arguments_fn w a folder session_id participant_id scan_date
       = Inl (NameError ''protocols_file'')
   \<and> mpm_maps_arguments_fn w a folder session_id participant_id scan_date config_file
       = Inl (NameError ''protocols_file'')
   \<and> load_name (nested_scopes a []) ''protocols_file'' = Inl (NameError ''protocols_file'')"
proof -
  have organizer: "dicom_organizer_arguments_fn w a folder session_id
      = Inl (NameError ''protocols_file'')"
    by (simp add: dicom_organizer_arguments_fn_def parent_data_folder_of_def nested_scopes_def
        lookups)
  have nifti: "dicom_to_nifti_arguments_fn w a folder session_id participant_id scan_date
      = Inl (NameError ''protocols_file'')"
    by (simp add: dicom_to_nifti_arguments_fn_def parent_data_folder_of_def nested_scopes_def
        lookups)
  have atlas: "neuro_morphometric_atlas_arguments_fn w a folder session_id participant_id scan_date
      = Inl (NameError ''protocols_file'')"
    by (simp add: neuro_morphometric_atlas_arguments_fn_def parent_data_folder_of_def
        nested_scopes_def lookups)
  have mpm: "mpm_maps_arguments_fn w a folder session_id participant_id scan_date config_file
      = Inl (NameError ''protocols_file'')"
    by (simp add: mpm_maps_arguments_fn_def parent_data_folder_of_def nested_scopes_def lookups)
  have unbound: "load_name (nested_scopes a []) ''protocols_file'' = Inl (NameError ''protocols_file'')"
    by (simp add: nested_scopes_def lookups)
  from organizer nifti atlas mpm unbound show ?thesis by simp
qed

text \<open>
  Claim C10. \<open>copy_to_local_step\<close> returns a handle whose priority weight is the
  upstream handle's plus 10, while the operator it registers gets the upstream handle's
  priority weight as it is; the operator is linked below the upstream task when the
  upstream handle carries one, and no link is added when it carries none.
\<close>

theorem C10_copy_to_local_step:
  "snd (copy_to_local_step d upstream_step min_free output_folder cfg)
     = Step (Some (copy_to_local_task upstream_step min_free output_folder cfg))
         (Some ''copy_to_local'') (step_priority_weight upstream_step + 10)
   \<and> step_priority_weight (snd (copy_to_local_step d upstream_step min_free output_folder cfg))
       = step_priority_weight upstream_step + 10
   \<and> priority_weight (copy_to_local_task upstream_step min_free output_folder cfg)
       = Some (step_priority_weight upstream_step)
   \<and> tasks (fst (copy_to_local_step d upstream_step min_free output_folder cfg))
       = tasks d @ [copy_to_local_task upstream_step min_free output_folder cfg]
   \<and> links (fst (copy_to_local_step d upstream_step min_free output_folder cfg))
       = (case task upstream_step of
            Some upstream_task \<Rightarrow> links d @ [(task_id upstream_task, ''copy_to_local'')]
          | None \<Rightarrow> links d)"
  by (simp add: copy_to_local_step_def Let_def Step_def copy_to_local_task_def new_operator_def
      dag_ops split: option.splits)

end
